theory Spec2Isabelle
  imports Main "HOL-Library.Word"
begin

unbundle bit_operations_syntax

section \<open>Type registry\<close>

text \<open>
  The declarations of \<^verbatim>\<open>DataTypeDefinition\<close>, \<^verbatim>\<open>IntegerDataType\<close> and
  \<^verbatim>\<open>PredefinedDataTypes\<close> are not among the sources; the record below holds exactly
  the members the token processing reads (\<^verbatim>\<open>mClass\<close>, \<^verbatim>\<open>mBytes\<close>, \<^verbatim>\<open>mSemantics\<close>,
  \<^verbatim>\<open>mIsSigned\<close>, the name printed by \<^verbatim>\<open>toString\<close>) and the code returned by
  \<^verbatim>\<open>DataTypeHelper::getBaseType\<close>. Data types are singletons compared by address in the
  source; two records are the same type when they are equal.
\<close>

datatype Class = VOID | INTEGER

datatype Semantics = DEFAULT | CONSTANT | BOOLEAN

record DataTypeDefinition =
  mName :: string
  mClass :: Class
  mBytes :: nat
  mSemantics :: Semantics
  mIsSigned :: bool
  mBaseType :: "8 word"

definition getBaseType :: "DataTypeDefinition \<Rightarrow> 8 word" where
  "getBaseType t = mBaseType t"

subsection \<open>Implicit cast cost\<close>

definition CANNOT_CAST :: "8 word" where
  "CANNOT_CAST = 0xff"

definition getImplicitCastPriority :: "DataTypeDefinition \<Rightarrow> DataTypeDefinition \<Rightarrow> 8 word" where
  "getImplicitCastPriority original target =
     (if original = target then 0
      else if mClass original = INTEGER \<and> mClass target = INTEGER then
        (if mSemantics original = CONSTANT then 1
         else if mSemantics target = CONSTANT then 1
         else if mBytes original = mBytes target then
           (if mIsSigned original \<and> \<not> mIsSigned target then 0x02 else 0x01)
         else
           (let a = getBaseType original;
                b = getBaseType target;
                sizeA = a AND 0x07;
                sizeB = b AND 0x07
            in if mBytes original < mBytes target
               then (if mIsSigned original \<and> \<not> mIsSigned target then 0x20 else 0x10) + (sizeB - sizeA)
               else (if mIsSigned original \<and> \<not> mIsSigned target then 0x40 else 0x30) + (sizeB - sizeA)))
      else CANNOT_CAST)"


text \<open>
  The difference of the two size classes that \<^verbatim>\<open>getImplicitCastPriority\<close> adds to the
  base cost of a cast that changes the width: \<^verbatim>\<open>sizeB - sizeA\<close>, in 8-bit arithmetic.
\<close>

definition sizeDelta :: "DataTypeDefinition \<Rightarrow> DataTypeDefinition \<Rightarrow> 8 word" where
  "sizeDelta original target = (getBaseType target AND 0x07) - (getBaseType original AND 0x07)"

subsection \<open>Predefined data types\<close>

text \<open>
  Modelled from the spec: \<^verbatim>\<open>PredefinedDataTypes\<close> is declared outside the sources at hand.
  The spec: signed and unsigned integers of 1, 2, 4 and 8 bytes, boolean, void, and a
  constant-integer pseudo-type. The low three bits of a base type code hold the base-2
  size class of the type.
\<close>

definition IntegerDataType :: "string \<Rightarrow> nat \<Rightarrow> Semantics \<Rightarrow> bool \<Rightarrow> 8 word \<Rightarrow> DataTypeDefinition" where
  "IntegerDataType name bytes semantics isSigned baseType =
     \<lparr>mName = name, mClass = INTEGER, mBytes = bytes, mSemantics = semantics,
      mIsSigned = isSigned, mBaseType = baseType\<rparr>"

definition VOID_DATATYPE :: DataTypeDefinition where
  "VOID_DATATYPE = \<lparr>mName = ''void'', mClass = VOID, mBytes = 0, mSemantics = DEFAULT,
                     mIsSigned = False, mBaseType = 0x00\<rparr>"

definition UINT_8 :: DataTypeDefinition where
  "UINT_8 = IntegerDataType ''u8'' 1 DEFAULT False 0x10"

definition UINT_16 :: DataTypeDefinition where
  "UINT_16 = IntegerDataType ''u16'' 2 DEFAULT False 0x11"

definition UINT_32 :: DataTypeDefinition where
  "UINT_32 = IntegerDataType ''u32'' 4 DEFAULT False 0x12"

definition UINT_64 :: DataTypeDefinition where
  "UINT_64 = IntegerDataType ''u64'' 8 DEFAULT False 0x13"

definition INT_8 :: DataTypeDefinition where
  "INT_8 = IntegerDataType ''s8'' 1 DEFAULT True 0x18"

definition INT_16 :: DataTypeDefinition where
  "INT_16 = IntegerDataType ''s16'' 2 DEFAULT True 0x19"

definition INT_32 :: DataTypeDefinition where
  "INT_32 = IntegerDataType ''s32'' 4 DEFAULT True 0x1a"

definition INT_64 :: DataTypeDefinition where
  "INT_64 = IntegerDataType ''s64'' 8 DEFAULT True 0x1b"

definition CONST_INT :: DataTypeDefinition where
  "CONST_INT = IntegerDataType ''const_int'' 8 CONSTANT True 0x1f"

definition BOOL :: DataTypeDefinition where
  "BOOL = IntegerDataType ''bool'' 1 BOOLEAN False 0x10"

definition fixedWidthTypes :: "DataTypeDefinition list" where
  "fixedWidthTypes = [UINT_8, UINT_16, UINT_32, UINT_64, INT_8, INT_16, INT_32, INT_64]"

lemmas predefined_defs =
  IntegerDataType_def VOID_DATATYPE_def UINT_8_def UINT_16_def UINT_32_def UINT_64_def
  INT_8_def INT_16_def INT_32_def INT_64_def CONST_INT_def BOOL_def

section \<open>Operators\<close>

text \<open>
  The enumeration \<^verbatim>\<open>Operator\<close> is declared outside the sources at hand; its members and
  their order are those of the comments of the priority table and of \<^verbatim>\<open>operatorCharacters\<close>.
\<close>

datatype Operator =
    ASSIGN | ASSIGN_PLUS | ASSIGN_MINUS | ASSIGN_MULTIPLY | ASSIGN_DIVIDE | ASSIGN_MODULO
  | ASSIGN_SHIFT_LEFT | ASSIGN_SHIFT_RIGHT | ASSIGN_AND | ASSIGN_OR | ASSIGN_XOR
  | BINARY_PLUS | BINARY_MINUS | BINARY_MULTIPLY | BINARY_DIVIDE | BINARY_MODULO
  | BINARY_SHIFT_LEFT | BINARY_SHIFT_RIGHT | BINARY_AND | BINARY_OR | BINARY_XOR
  | LOGICAL_AND | LOGICAL_OR
  | UNARY_NOT | UNARY_BITNOT | UNARY_DECREMENT | UNARY_INCREMENT
  | COMPARE_EQUAL | COMPARE_NOT_EQUAL | COMPARE_LESS | COMPARE_LESS_OR_EQUAL
  | COMPARE_GREATER | COMPARE_GREATER_OR_EQUAL
  | QUESTIONMARK | COLON | SEMICOLON_SEPARATOR | COMMA_SEPARATOR
  | PARENTHESIS_LEFT | PARENTHESIS_RIGHT | BRACKET_LEFT | BRACKET_RIGHT

text \<open>The numeric value of an enumerator, \<^verbatim>\<open>(size_t)op\<close>.\<close>

fun operatorIndex :: "Operator \<Rightarrow> nat" where
  "operatorIndex ASSIGN = 0"
| "operatorIndex ASSIGN_PLUS = 1"
| "operatorIndex ASSIGN_MINUS = 2"
| "operatorIndex ASSIGN_MULTIPLY = 3"
| "operatorIndex ASSIGN_DIVIDE = 4"
| "operatorIndex ASSIGN_MODULO = 5"
| "operatorIndex ASSIGN_SHIFT_LEFT = 6"
| "operatorIndex ASSIGN_SHIFT_RIGHT = 7"
| "operatorIndex ASSIGN_AND = 8"
| "operatorIndex ASSIGN_OR = 9"
| "operatorIndex ASSIGN_XOR = 10"
| "operatorIndex BINARY_PLUS = 11"
| "operatorIndex BINARY_MINUS = 12"
| "operatorIndex BINARY_MULTIPLY = 13"
| "operatorIndex BINARY_DIVIDE = 14"
| "operatorIndex BINARY_MODULO = 15"
| "operatorIndex BINARY_SHIFT_LEFT = 16"
| "operatorIndex BINARY_SHIFT_RIGHT = 17"
| "operatorIndex BINARY_AND = 18"
| "operatorIndex BINARY_OR = 19"
| "operatorIndex BINARY_XOR = 20"
| "operatorIndex LOGICAL_AND = 21"
| "operatorIndex LOGICAL_OR = 22"
| "operatorIndex UNARY_NOT = 23"
| "operatorIndex UNARY_BITNOT = 24"
| "operatorIndex UNARY_DECREMENT = 25"
| "operatorIndex UNARY_INCREMENT = 26"
| "operatorIndex COMPARE_EQUAL = 27"
| "operatorIndex COMPARE_NOT_EQUAL = 28"
| "operatorIndex COMPARE_LESS = 29"
| "operatorIndex COMPARE_LESS_OR_EQUAL = 30"
| "operatorIndex COMPARE_GREATER = 31"
| "operatorIndex COMPARE_GREATER_OR_EQUAL = 32"
| "operatorIndex QUESTIONMARK = 33"
| "operatorIndex COLON = 34"
| "operatorIndex SEMICOLON_SEPARATOR = 35"
| "operatorIndex COMMA_SEPARATOR = 36"
| "operatorIndex PARENTHESIS_LEFT = 37"
| "operatorIndex PARENTHESIS_RIGHT = 38"
| "operatorIndex BRACKET_LEFT = 39"
| "operatorIndex BRACKET_RIGHT = 40"

definition operatorPriorityLookup :: "8 word list" where
  "operatorPriorityLookup =
    [15, 15, 15, 15, 15, 15, 15, 15, 15, 15, 15,
     6, 6, 5, 5, 5, 7, 7, 10, 12, 11, 13, 14,
     3, 3, 3, 3,
     9, 9, 8, 8, 8, 8,
     15, 15, 18, 17,
     2, 2, 2, 2]"

text \<open>\<^verbatim>\<open>false\<close> = left to right, \<^verbatim>\<open>true\<close> = right to left; one entry per priority 0 .. 17.\<close>

definition operatorAssociativityLookup :: "bool list" where
  "operatorAssociativityLookup =
    [False, False, False, True, False, False, False, False, False,
     False, False, False, False, False, False, True, True, False]"

definition operatorCharacters :: "string list" where
  "operatorCharacters =
    [''='', ''+='', ''-='', ''*='', ''/='', ''%='', ''<<='', ''>>='', ''&='', ''|='', ''^='',
     ''+'', ''-'', ''*'', ''/'', ''%'', ''<<'', ''>>'', ''&'', ''|'', ''^'', ''&&'', ''||'',
     [], [], ''-'', ''+'',
     ''=='', ''!='', ''<'', ''<='', ''>'', ''>='',
     ''?'', '':'', '';'', '','', ''('', '')'', ''['', '']'']"

definition getOperatorPriority :: "Operator \<Rightarrow> 8 word" where
  "getOperatorPriority op = operatorPriorityLookup ! operatorIndex op"

definition getOperatorNotAllowedErrorMessage :: "Operator \<Rightarrow> string" where
  "getOperatorNotAllowedErrorMessage op =
     (if operatorIndex UNARY_NOT \<le> operatorIndex op \<and> operatorIndex op \<le> operatorIndex UNARY_INCREMENT
      then ''Unary operator '' @ operatorCharacters ! operatorIndex op @ '' is not allowed here''
      else if operatorIndex op \<le> operatorIndex COLON
      then ''Binary operator '' @ operatorCharacters ! operatorIndex op @ '' is not allowed here''
      else (case op of
              SEMICOLON_SEPARATOR \<Rightarrow> ''Semicolon ; is only allowed in for-loops''
            | COMMA_SEPARATOR \<Rightarrow> ''Comma , is not allowed here''
            | PARENTHESIS_LEFT \<Rightarrow> ''Parenthesis ( is not allowed here''
            | PARENTHESIS_RIGHT \<Rightarrow> ''Parenthesis ) is not allowed here''
            | BRACKET_LEFT \<Rightarrow> ''Bracket [ is not allowed here''
            | BRACKET_RIGHT \<Rightarrow> ''Bracket ] is not allowed here''
            | _ \<Rightarrow> ''Operator is not allowed here''))"

section \<open>Tokens\<close>

text \<open>
  The token classes are declared outside the sources at hand. The datatype has one
  constructor per token kind named in the token processing, with the members that code
  reads and writes. Every statement token carries \<^verbatim>\<open>mDataType\<close> (a pointer that may be
  null) as its first argument. A function token points to the parenthesis token that holds
  its arguments; the three members of that parenthesis token are arguments four to six.
\<close>

datatype Keyword = FUNCTION | OTHER_KEYWORD nat

datatype ParenthesisType = PARENTHESIS | BRACKET

record Variable =
  vName :: string
  vDataType :: DataTypeDefinition

record Parameter =
  mIdentifier :: string
  mType :: DataTypeDefinition

record Function =
  fName :: string
  fReturnType :: DataTypeDefinition
  fParameters :: "Parameter list"

datatype Token =
    KeywordToken Keyword
  | VarTypeToken DataTypeDefinition
  | OperatorToken Operator
  | IdentifierToken string
  | CommaSeparatedListToken "Token list list"
  | ConstantToken "DataTypeDefinition option" "64 word"
  | VariableToken "DataTypeDefinition option" Variable
  | FunctionToken "DataTypeDefinition option" string "Function option"
                  "DataTypeDefinition option" ParenthesisType "Token list" bool
  | MemoryAccessToken "DataTypeDefinition option" Token
  | ParenthesisToken "DataTypeDefinition option" ParenthesisType "Token list"
  | UnaryOperationToken "DataTypeDefinition option" Operator Token
  | BinaryOperationToken "DataTypeDefinition option" Operator Token Token
  | ValueCastToken "DataTypeDefinition option" Token

datatype TokenType =
    Type_KEYWORD | Type_VARTYPE | Type_OPERATOR | Type_IDENTIFIER | Type_COMMA_SEPARATED
  | Type_CONSTANT | Type_VARIABLE | Type_FUNCTION | Type_MEMORY_ACCESS | Type_PARENTHESIS
  | Type_UNARY_OPERATION | Type_BINARY_OPERATION | Type_VALUE_CAST

fun getType :: "Token \<Rightarrow> TokenType" where
  "getType (KeywordToken _) = Type_KEYWORD"
| "getType (VarTypeToken _) = Type_VARTYPE"
| "getType (OperatorToken _) = Type_OPERATOR"
| "getType (IdentifierToken _) = Type_IDENTIFIER"
| "getType (CommaSeparatedListToken _) = Type_COMMA_SEPARATED"
| "getType (ConstantToken _ _) = Type_CONSTANT"
| "getType (VariableToken _ _) = Type_VARIABLE"
| "getType (FunctionToken _ _ _ _ _ _ _) = Type_FUNCTION"
| "getType (MemoryAccessToken _ _) = Type_MEMORY_ACCESS"
| "getType (ParenthesisToken _ _ _) = Type_PARENTHESIS"
| "getType (UnaryOperationToken _ _ _) = Type_UNARY_OPERATION"
| "getType (BinaryOperationToken _ _ _ _) = Type_BINARY_OPERATION"
| "getType (ValueCastToken _ _) = Type_VALUE_CAST"

text \<open>
  Modelled from the spec: \<^verbatim>\<open>Token::isStatement\<close> is declared outside the sources at hand.
  The spec: a token is a statement iff it is one of Constant, Variable, Function call,
  Memory access, Parenthesis group, Unary or Binary operation, Value cast.
\<close>

fun isStatement :: "Token \<Rightarrow> bool" where
  "isStatement (ConstantToken _ _) = True"
| "isStatement (VariableToken _ _) = True"
| "isStatement (FunctionToken _ _ _ _ _ _ _) = True"
| "isStatement (MemoryAccessToken _ _) = True"
| "isStatement (ParenthesisToken _ _ _) = True"
| "isStatement (UnaryOperationToken _ _ _) = True"
| "isStatement (BinaryOperationToken _ _ _ _) = True"
| "isStatement (ValueCastToken _ _) = True"
| "isStatement _ = False"

text \<open>\<^verbatim>\<open>mDataType\<close> of a statement token; other tokens have no such member.\<close>

fun mDataType :: "Token \<Rightarrow> DataTypeDefinition option" where
  "mDataType (ConstantToken d _) = d"
| "mDataType (VariableToken d _) = d"
| "mDataType (FunctionToken d _ _ _ _ _ _) = d"
| "mDataType (MemoryAccessToken d _) = d"
| "mDataType (ParenthesisToken d _ _) = d"
| "mDataType (UnaryOperationToken d _ _) = d"
| "mDataType (BinaryOperationToken d _ _ _) = d"
| "mDataType (ValueCastToken d _) = d"
| "mDataType _ = None"

section \<open>Errors and token lists\<close>

text \<open>
  \<^verbatim>\<open>CHECK_ERROR\<close> aborts the compilation of the statement with a message: the
  result \<open>Inl (CompileError msg)\<close>. Reading a token list outside its bounds, using a token
  as a kind it is not, reading through a null pointer and arithmetic the language leaves
  undefined are results of their own, so that no such step is hidden by a total HOL
  function.
\<close>

datatype error = CompileError string | OutOfBounds | BadCast | NullPointer | UndefinedBehaviour

definition at :: "'a list \<Rightarrow> nat \<Rightarrow> error + 'a" where
  "at xs i = (if i < length xs then Inr (xs ! i) else Inl OutOfBounds)"

definition erase :: "'a list \<Rightarrow> nat \<Rightarrow> 'a list" where
  "erase xs i = take i xs @ drop (Suc i) xs"

definition insert_at :: "'a list \<Rightarrow> 'a \<Rightarrow> nat \<Rightarrow> 'a list" where
  "insert_at xs x pos = take pos xs @ x # drop pos xs"

text \<open>
  \<^verbatim>\<open>tokens.size() - 1\<close> in \<^verbatim>\<open>size_t\<close> arithmetic (64 bits; a token list holds fewer than
  \<open>2 ^ 64\<close> tokens): for the empty list the difference wraps around.
\<close>

definition size_minus_1 :: "'a list \<Rightarrow> nat" where
  "size_minus_1 xs = (if length xs = 0 then 2 ^ 64 - 1 else length xs - 1)"

section \<open>Constant folding\<close>

text \<open>
  \<^verbatim>\<open>tryReplaceConstants\<close> on the two \<^verbatim>\<open>int64\<close> values. The result \<open>Inr (Some v)\<close> is
  \<^verbatim>\<open>return true\<close> with \<^verbatim>\<open>outValue = v\<close>, \<open>Inr None\<close> is \<^verbatim>\<open>return false\<close>. Sums, differences
  and products wrap around in two's complement; \<^verbatim>\<open>/\<close> and \<^verbatim>\<open>%\<close> truncate towards zero.
  The operations C++ leaves undefined (a zero divisor of \<^verbatim>\<open>%\<close>, the quotient of the least
  value by -1, a shift count outside 0 .. 63) are the result \<open>Inl UndefinedBehaviour\<close>.
\<close>

definition INT64_MIN :: "64 word" where
  "INT64_MIN = 0x8000000000000000"

definition int64_div :: "64 word \<Rightarrow> 64 word \<Rightarrow> error + 64 word" where
  "int64_div a b =
     (if b = 0 \<or> (a = INT64_MIN \<and> b = - 1) then Inl UndefinedBehaviour
      else Inr (word_of_int (sgn (sint a) * sgn (sint b) * (\<bar>sint a\<bar> div \<bar>sint b\<bar>))))"

definition int64_mod :: "64 word \<Rightarrow> 64 word \<Rightarrow> error + 64 word" where
  "int64_mod a b =
     (if b = 0 \<or> (a = INT64_MIN \<and> b = - 1) then Inl UndefinedBehaviour
      else Inr (word_of_int (sgn (sint a) * (\<bar>sint a\<bar> mod \<bar>sint b\<bar>))))"

definition int64_shl :: "64 word \<Rightarrow> 64 word \<Rightarrow> error + 64 word" where
  "int64_shl a b =
     (if 0 \<le> sint b \<and> sint b < 64 then Inr (push_bit (unat b) a) else Inl UndefinedBehaviour)"

definition int64_shr :: "64 word \<Rightarrow> 64 word \<Rightarrow> error + 64 word" where
  "int64_shr a b =
     (if 0 \<le> sint b \<and> sint b < 64 then Inr (signed_drop_bit (unat b) a) else Inl UndefinedBehaviour)"

definition tryReplaceConstants :: "64 word \<Rightarrow> 64 word \<Rightarrow> Operator \<Rightarrow> error + 64 word option" where
  "tryReplaceConstants constLeft constRight op =
     (case op of
        BINARY_PLUS \<Rightarrow> Inr (Some (constLeft + constRight))
      | BINARY_MINUS \<Rightarrow> Inr (Some (constLeft - constRight))
      | BINARY_MULTIPLY \<Rightarrow> Inr (Some (constLeft * constRight))
      | BINARY_DIVIDE \<Rightarrow>
          (if constRight = 0 then Inr (Some 0) else map_sum id Some (int64_div constLeft constRight))
      | BINARY_MODULO \<Rightarrow> map_sum id Some (int64_mod constLeft constRight)
      | BINARY_SHIFT_LEFT \<Rightarrow> map_sum id Some (int64_shl constLeft constRight)
      | BINARY_SHIFT_RIGHT \<Rightarrow> map_sum id Some (int64_shr constLeft constRight)
      | _ \<Rightarrow> Inr None)"

section \<open>Binary operations\<close>

text \<open>
  The scan of \<^verbatim>\<open>processBinaryOperations\<close> for the operator to fold: the inner \<^verbatim>\<open>for\<close> loop,
  from index \<open>i\<close> on, with the current \<^verbatim>\<open>bestPriority\<close> and \<^verbatim>\<open>bestPosition\<close>. Inside the loop
  the list is not empty, so \<^verbatim>\<open>tokens.size()-1\<close> does not wrap.
\<close>

definition asOperator :: "Token \<Rightarrow> error + Operator" where
  "asOperator t = (case t of OperatorToken op \<Rightarrow> Inr op | _ \<Rightarrow> Inl BadCast)"

function findLowestPriority ::
  "Token list \<Rightarrow> nat \<Rightarrow> 8 word \<Rightarrow> nat \<Rightarrow> error + (8 word \<times> nat)" where
  "findLowestPriority tokens i bestPriority bestPosition =
     (if i < length tokens then
        (if getType (tokens ! i) = Type_OPERATOR then
           (case asOperator (tokens ! i) of Inl e \<Rightarrow> Inl e | Inr op \<Rightarrow>
              if \<not> ((0 < i \<and> i < size_minus_1 tokens) \<and> op \<noteq> SEMICOLON_SEPARATOR)
              then Inl (CompileError (getOperatorNotAllowedErrorMessage op))
              else
                (let priority = operatorPriorityLookup ! operatorIndex op in
                 case (if priority = bestPriority then at operatorAssociativityLookup (unat priority)
                       else Inr (priority < bestPriority)) of
                   Inl e \<Rightarrow> Inl e
                 | Inr isLower \<Rightarrow>
                     if isLower then findLowestPriority tokens (i + 1) priority i
                     else findLowestPriority tokens (i + 1) bestPriority bestPosition))
         else findLowestPriority tokens (i + 1) bestPriority bestPosition)
      else Inr (bestPriority, bestPosition))"
  by pat_completeness auto
termination
  by (relation "measure (\<lambda>(tokens, i, bp, pos). length tokens - i)") auto

declare findLowestPriority.simps [simp del]

text \<open>The rest of one round of the outer loop: fold the operator at \<^verbatim>\<open>bestPosition\<close>.\<close>

text \<open>
  The token that replaces the operator: a constant when both operands are constants and
  \<^verbatim>\<open>tryReplaceConstants\<close> returns true (\<^verbatim>\<open>replacedWithConstant\<close>), a binary operation
  otherwise.
\<close>

definition foldedToken :: "Operator \<Rightarrow> Token \<Rightarrow> Token \<Rightarrow> error + Token" where
  "foldedToken op leftToken rightToken =
     (case (leftToken, rightToken) of
        (ConstantToken leftType leftValue, ConstantToken rightType rightValue) \<Rightarrow>
          (case tryReplaceConstants leftValue rightValue op of
             Inl e \<Rightarrow> Inl e
           | Inr (Some resultValue) \<Rightarrow> Inr (ConstantToken leftType resultValue)
           | Inr None \<Rightarrow> Inr (BinaryOperationToken None op leftToken rightToken))
      | _ \<Rightarrow> Inr (BinaryOperationToken None op leftToken rightToken))"

definition foldBinaryAt :: "Token list \<Rightarrow> nat \<Rightarrow> error + Token list" where
  "foldBinaryAt tokens bestPosition =
     (case at tokens bestPosition of Inl e \<Rightarrow> Inl e | Inr opToken \<Rightarrow>
      case asOperator opToken of Inl e \<Rightarrow> Inl e | Inr op \<Rightarrow>
      case at tokens (bestPosition - 1) of Inl e \<Rightarrow> Inl e | Inr leftToken \<Rightarrow>
      case at tokens (bestPosition + 1) of Inl e \<Rightarrow> Inl e | Inr rightToken \<Rightarrow>
      if \<not> isStatement leftToken then Inl (CompileError ''Left of operator is no statement'')
      else if \<not> isStatement rightToken then Inl (CompileError ''Right of operator is no statement'')
      else
        case foldedToken op leftToken rightToken of
          Inl e \<Rightarrow> Inl e
        | Inr token \<Rightarrow>
            Inr (erase (erase (tokens[bestPosition := token]) (bestPosition + 1)) (bestPosition - 1)))"

lemma foldBinaryAt_length:
  assumes "foldBinaryAt tokens pos = Inr tokens'" and "pos \<noteq> 0"
  shows "length tokens' < length tokens"
proof -
  from assms(1) have "pos + 1 < length tokens"
    by (auto simp: foldBinaryAt_def at_def split: sum.splits if_splits)
  moreover from assms(1) obtain token where
    "tokens' = erase (erase (tokens[pos := token]) (pos + 1)) (pos - 1)"
    by (auto simp: foldBinaryAt_def Let_def split: sum.splits if_splits)
  ultimately show ?thesis using assms(2)
    by (simp add: erase_def)
qed

function processBinaryOperations :: "Token list \<Rightarrow> error + Token list" where
  "processBinaryOperations tokens =
     (case findLowestPriority tokens 0 0xff 0 of
        Inl e \<Rightarrow> Inl e
      | Inr (bestPriority, bestPosition) \<Rightarrow>
          if bestPosition = 0 then Inr tokens
          else (case foldBinaryAt tokens bestPosition of
                  Inl e \<Rightarrow> Inl e
                | Inr tokens' \<Rightarrow> processBinaryOperations tokens'))"
  by pat_completeness auto
termination
  by (relation "measure length") (auto dest: foldBinaryAt_length)

declare processBinaryOperations.simps [simp del]

section \<open>Unary operations\<close>

text \<open>Reading \<^verbatim>\<open>tokens[i]\<close> with an \<^verbatim>\<open>int\<close> index.\<close>

definition at_int :: "'a list \<Rightarrow> int \<Rightarrow> error + 'a" where
  "at_int xs i = (if 0 \<le> i \<and> i < int (length xs) then Inr (xs ! nat i) else Inl OutOfBounds)"







section \<open>Symbol lookup and context\<close>

text \<open>
  \<^verbatim>\<open>GlobalsLookup\<close>, \<^verbatim>\<open>Define\<close> and the compile context are declared outside the sources at
  hand; the records hold the members and queries the token processing uses. The queries
  take the 64-bit hash of a name in the source; here they take the name itself.
\<close>

record Define =
  mContent :: "Token list"

record GlobalsLookup =
  getDefineByName :: "string \<Rightarrow> Define option"
  getFunctionsByName :: "string \<Rightarrow> Function list"
  getGlobalVariableByName :: "string \<Rightarrow> Variable option"

record Context =
  mGlobalsLookup :: GlobalsLookup
  mFunction :: Function
  mLocalVariables :: "Variable list"

section \<open>Defines\<close>

text \<open>The inner loop of \<^verbatim>\<open>processDefines\<close>: insert \<^verbatim>\<open>content[k]\<close> at \<^verbatim>\<open>i + k\<close>, from \<open>k\<close> on.\<close>

function insertContent :: "Token list \<Rightarrow> Token list \<Rightarrow> nat \<Rightarrow> nat \<Rightarrow> Token list" where
  "insertContent tokens content i k =
     (if k < length content
      then insertContent (insert_at tokens (content ! k) (i + k)) content i (k + 1)
      else tokens)"
  by pat_completeness auto
termination
  by (relation "measure (\<lambda>(tokens, content, i, k). length content - k)") auto

declare insertContent.simps [simp del]

text \<open>
  The loop of \<^verbatim>\<open>processDefines\<close> from index \<open>i\<close> on. The list can grow in every round, and
  nothing bounds the number of rounds: the result \<open>None\<close> is a loop that does not end.
\<close>

partial_function (option) processDefines_loop ::
  "GlobalsLookup \<Rightarrow> Token list \<Rightarrow> nat \<Rightarrow> Token list option" where
  "processDefines_loop lookup tokens i =
     (if i < length tokens then
        (case tokens ! i of
           IdentifierToken identifier \<Rightarrow>
             (case getDefineByName lookup identifier of
                Some define \<Rightarrow>
                  processDefines_loop lookup
                    (insertContent (erase tokens i) (mContent define) i 0) (i + 1)
              | None \<Rightarrow> processDefines_loop lookup tokens (i + 1))
         | _ \<Rightarrow> processDefines_loop lookup tokens (i + 1))
      else Some tokens)"

definition processDefines :: "GlobalsLookup \<Rightarrow> Token list \<Rightarrow> Token list option" where
  "processDefines lookup tokens = processDefines_loop lookup tokens 0"

section \<open>Comma separators\<close>

text \<open>
  \<^verbatim>\<open>moveFrom(tokens, first, count)\<close> appends the tokens \<open>first .. first + count - 1\<close> of
  \<^verbatim>\<open>tokens\<close> to the receiving list and removes them from \<^verbatim>\<open>tokens\<close>.
\<close>

definition isCommaSeparator :: "Token \<Rightarrow> bool" where
  "isCommaSeparator token \<longleftrightarrow> token = OperatorToken COMMA_SEPARATOR"

text \<open>
  The loop over \<open>j\<close> from \<^verbatim>\<open>commaPositions.size() - 1\<close> down to 0; the argument \<open>n\<close> is
  \<open>j + 1\<close>. The state is the token list and \<^verbatim>\<open>commaSeparatedListToken.mContent\<close>.
\<close>

fun moveItems ::
  "nat list \<Rightarrow> nat \<Rightarrow> Token list \<Rightarrow> Token list list \<Rightarrow> error + Token list \<times> Token list list" where
  "moveItems commaPositions 0 tokens content = Inr (tokens, content)"
| "moveItems commaPositions (Suc j) tokens content =
     (case at commaPositions j of Inl e \<Rightarrow> Inl e | Inr position \<Rightarrow>
      let first = position + 1;
          content' = content[j := content ! j @ take (length tokens - first) (drop first tokens)];
          tokens' = take first tokens @ drop (first + (length tokens - first)) tokens
      in if 0 < j then
           (case at tokens' position of Inl e \<Rightarrow> Inl e | Inr token \<Rightarrow>
            if \<not> isCommaSeparator token then Inl (CompileError ''Wrong token index'')
            else moveItems commaPositions j (erase tokens' position) content')
         else moveItems commaPositions j tokens' content')"

text \<open>
  The body of the loop of \<^verbatim>\<open>processCommaSeparators\<close> for one list: the list afterwards, and
  the lists to insert into the worklist behind it.
\<close>

definition splitAtCommas :: "Token list \<Rightarrow> error + Token list \<times> Token list list" where
  "splitAtCommas tokens =
     (let commaPositions = filter (\<lambda>i. isCommaSeparator (tokens ! i)) [0 ..< length tokens]
      in if commaPositions \<noteq> [] then
           (let tokens1 = CommaSeparatedListToken [] # tokens;
                content = replicate (length commaPositions + 1) [];
                commaPositions' = 0 # map (\<lambda>pos. pos + 1) commaPositions
            in case moveItems commaPositions' (length commaPositions') tokens1 content of
                 Inl e \<Rightarrow> Inl e
               | Inr (tokens2, content') \<Rightarrow>
                   if length tokens2 \<noteq> 1
                   then Inl (CompileError
                     ''Token list must only contain the CommaSeparatedListToken afterwards'')
                   else Inr ((tokens2[0 := CommaSeparatedListToken content']), content'))
         else Inr (tokens, []))"

text \<open>
  \<^verbatim>\<open>processCommaSeparators\<close>, from index \<open>k\<close> of the worklist on. An entry of the worklist
  is a pointer to a token list in the source; here it is the content of that list. The
  function reads and writes the top level of the lists only, and the lists of the
  worklist are different lists, so the contents are exact.
\<close>

function processCommaSeparators_loop :: "Token list list \<Rightarrow> nat \<Rightarrow> error + Token list list" where
  "processCommaSeparators_loop linearTokenLists k =
     (if k < length linearTokenLists then
        (case splitAtCommas (linearTokenLists ! k) of
           Inl e \<Rightarrow> Inl e
         | Inr (tokens, items) \<Rightarrow>
             processCommaSeparators_loop
               (take k linearTokenLists @ tokens # items @ drop (k + 1) linearTokenLists)
               (k + length items + 1))
      else Inr linearTokenLists)"
  by pat_completeness auto
termination
  by (relation "measure (\<lambda>(lists, k). length lists - k)") auto

declare processCommaSeparators_loop.simps [simp del]

definition processCommaSeparators :: "Token list list \<Rightarrow> error + Token list list" where
  "processCommaSeparators linearTokenLists = processCommaSeparators_loop linearTokenLists 0"

section \<open>Recognition passes\<close>

text \<open>\<^verbatim>\<open>String(functionName).startsWith("base.")\<close>.\<close>

definition startsWith :: "string \<Rightarrow> string \<Rightarrow> bool" where
  "startsWith s p \<longleftrightarrow> take (length p) s = p"

text \<open>
  The loops of the three recognition passes run while \<^verbatim>\<open>i < tokens.size()-1\<close>, an unsigned
  comparison. \<^verbatim>\<open>tokens[i+1]\<close> is read only when the kind of \<^verbatim>\<open>tokens[i]\<close> matches.
\<close>

function processFunctionCalls_loop :: "Context \<Rightarrow> Token list \<Rightarrow> nat \<Rightarrow> error + Token list" where
  "processFunctionCalls_loop ctx tokens i =
     (if i < size_minus_1 tokens then
        (case at tokens i of Inl e \<Rightarrow> Inl e | Inr token \<Rightarrow>
         case token of
           IdentifierToken functionName \<Rightarrow>
             (case at tokens (i + 1) of Inl e \<Rightarrow> Inl e | Inr next \<Rightarrow>
              case next of
                ParenthesisToken parenthesisDataType PARENTHESIS content \<Rightarrow>
                  if \<not> (getFunctionsByName (mGlobalsLookup ctx) functionName \<noteq> []
                         \<or> startsWith functionName ''base.'')
                  then Inl (CompileError (''Unknown function name '' @ [CHR 0x27] @ functionName @ [CHR 0x27]))
                  else processFunctionCalls_loop ctx
                         (erase (tokens[i := FunctionToken None functionName None
                                                parenthesisDataType PARENTHESIS content False])
                            (i + 1))
                         (i + 1)
              | _ \<Rightarrow> processFunctionCalls_loop ctx tokens (i + 1))
         | _ \<Rightarrow> processFunctionCalls_loop ctx tokens (i + 1))
      else Inr tokens)"
  by pat_completeness auto
termination
  by (relation "measure (\<lambda>(ctx, tokens, i). size_minus_1 tokens - i)")
     (auto simp: size_minus_1_def erase_def at_def split: if_splits)

declare processFunctionCalls_loop.simps [simp del]

definition processFunctionCalls :: "Context \<Rightarrow> Token list \<Rightarrow> error + Token list" where
  "processFunctionCalls ctx tokens = processFunctionCalls_loop ctx tokens 0"

function processMemoryAccesses_loop :: "Token list \<Rightarrow> nat \<Rightarrow> error + Token list" where
  "processMemoryAccesses_loop tokens i =
     (if i < size_minus_1 tokens then
        (case at tokens i of Inl e \<Rightarrow> Inl e | Inr token \<Rightarrow>
         case token of
           VarTypeToken dataType \<Rightarrow>
             (case at tokens (i + 1) of Inl e \<Rightarrow> Inl e | Inr next \<Rightarrow>
              case next of
                ParenthesisToken parenthesisDataType BRACKET content \<Rightarrow>
                  if length content \<noteq> 1
                  then Inl (CompileError ''Expected exactly one token inside brackets'')
                  else
                    (case at content 0 of Inl e \<Rightarrow> Inl e | Inr address \<Rightarrow>
                     if \<not> isStatement address
                     then Inl (CompileError ''Expected statement token inside brackets'')
                     else processMemoryAccesses_loop
                            (erase (tokens[i := MemoryAccessToken (Some dataType) address]) (i + 1))
                            (i + 1))
              | _ \<Rightarrow> processMemoryAccesses_loop tokens (i + 1))
         | _ \<Rightarrow> processMemoryAccesses_loop tokens (i + 1))
      else Inr tokens)"
  by pat_completeness auto
termination
  by (relation "measure (\<lambda>(tokens, i). size_minus_1 tokens - i)")
     (auto simp: size_minus_1_def erase_def at_def split: if_splits)

declare processMemoryAccesses_loop.simps [simp del]

definition processMemoryAccesses :: "Token list \<Rightarrow> error + Token list" where
  "processMemoryAccesses tokens = processMemoryAccesses_loop tokens 0"

function processExplicitCasts_loop :: "Token list \<Rightarrow> nat \<Rightarrow> error + Token list" where
  "processExplicitCasts_loop tokens i =
     (if i < size_minus_1 tokens then
        (case at tokens i of Inl e \<Rightarrow> Inl e | Inr token \<Rightarrow>
         case token of
           VarTypeToken targetType \<Rightarrow>
             (case at tokens (i + 1) of Inl e \<Rightarrow> Inl e | Inr next \<Rightarrow>
              case next of
                ParenthesisToken parenthesisDataType PARENTHESIS content \<Rightarrow>
                  processExplicitCasts_loop
                    (erase (tokens[i := ValueCastToken (Some targetType)
                                          (ParenthesisToken parenthesisDataType PARENTHESIS content)])
                       (i + 1))
                    (i + 1)
              | _ \<Rightarrow> processExplicitCasts_loop tokens (i + 1))
         | _ \<Rightarrow> processExplicitCasts_loop tokens (i + 1))
      else Inr tokens)"
  by pat_completeness auto
termination
  by (relation "measure (\<lambda>(tokens, i). size_minus_1 tokens - i)")
     (auto simp: size_minus_1_def erase_def at_def split: if_splits)

declare processExplicitCasts_loop.simps [simp del]

definition processExplicitCasts :: "Token list \<Rightarrow> error + Token list" where
  "processExplicitCasts tokens = processExplicitCasts_loop tokens 0"

section \<open>Implicit cast cost of possibly null types\<close>

text \<open>
  \<^verbatim>\<open>getImplicitCastPriority\<close> takes pointers. It compares them first, then reads the class
  of the original and, when that is an integer, the class of the target.
\<close>

definition getImplicitCastPriority_ptr ::
  "DataTypeDefinition option \<Rightarrow> DataTypeDefinition option \<Rightarrow> error + 8 word" where
  "getImplicitCastPriority_ptr original target =
     (if original = target then Inr 0
      else
        (case original of
           None \<Rightarrow> Inl NullPointer
         | Some originalType \<Rightarrow>
             if mClass originalType \<noteq> INTEGER then Inr CANNOT_CAST
             else
               (case target of
                  None \<Rightarrow> Inl NullPointer
                | Some targetType \<Rightarrow> Inr (getImplicitCastPriority originalType targetType))))"

section \<open>Signatures\<close>

record BinaryOperatorSignature =
  mLeft :: DataTypeDefinition
  mRight :: DataTypeDefinition
  mResult :: DataTypeDefinition

definition getPriorityOfSignature_binary ::
  "BinaryOperatorSignature \<Rightarrow> DataTypeDefinition \<Rightarrow> DataTypeDefinition \<Rightarrow> 16 word" where
  "getPriorityOfSignature_binary signature left right =
     (let prioLeft = getImplicitCastPriority left (mLeft signature);
          prioRight = getImplicitCastPriority right (mRight signature)
      in if prioLeft < prioRight
         then push_bit 8 (ucast prioRight) + ucast prioLeft
         else push_bit 8 (ucast prioLeft) + ucast prioRight)"

text \<open>
  \<^verbatim>\<open>getPriorityOfSignature\<close> for the parameters of a function. The argument types are
  pointers; reading the class of a null type is the result \<open>Inl NullPointer\<close>. The loop
  over \<open>i\<close> below \<^verbatim>\<open>min(size, 4)\<close> sets byte \<open>3 - i\<close> of the key to \<^verbatim>\<open>priorities[i]\<close>;
  \<open>signatureKey\<close> is the key of argument types that are not null. The shift is one of
  32-bit integers, with the bits above bit 31 dropped.
\<close>

function packPriorities :: "8 word list \<Rightarrow> nat \<Rightarrow> 32 word \<Rightarrow> 32 word" where
  "packPriorities priorities i result =
     (if i < min (length priorities) 4
      then packPriorities priorities (i + 1)
             (result OR push_bit (24 - i * 8) (ucast (priorities ! i)))
      else result)"
  by pat_completeness auto
termination
  by (relation "measure (\<lambda>(priorities, i, result). 4 - i)") auto

declare packPriorities.simps [simp del]

definition signatureKey :: "DataTypeDefinition option list \<Rightarrow> Parameter list \<Rightarrow> 32 word" where
  "signatureKey original target =
     (if length original \<noteq> length target then 0xffffffff
      else
        (let priorities = map (\<lambda>(type, parameter). getImplicitCastPriority (the type) (mType parameter))
                            (zip original target)
         in packPriorities (rev (sort priorities)) 0 0))"

definition getPriorityOfSignature ::
  "DataTypeDefinition option list \<Rightarrow> Parameter list \<Rightarrow> error + 32 word" where
  "getPriorityOfSignature original target =
     (if length original = length target \<and> None \<in> set original then Inl NullPointer
      else Inr (signatureKey original target))"

datatype OperatorType = ASSIGNMENT | SYMMETRIC | COMPARISON | TRINARY | UNKNOWN

definition getOperatorType :: "Operator \<Rightarrow> OperatorType" where
  "getOperatorType op =
     (case op of
        ASSIGN \<Rightarrow> ASSIGNMENT | ASSIGN_PLUS \<Rightarrow> ASSIGNMENT | ASSIGN_MINUS \<Rightarrow> ASSIGNMENT
      | ASSIGN_MULTIPLY \<Rightarrow> ASSIGNMENT | ASSIGN_DIVIDE \<Rightarrow> ASSIGNMENT | ASSIGN_MODULO \<Rightarrow> ASSIGNMENT
      | ASSIGN_SHIFT_LEFT \<Rightarrow> ASSIGNMENT | ASSIGN_SHIFT_RIGHT \<Rightarrow> ASSIGNMENT
      | ASSIGN_AND \<Rightarrow> ASSIGNMENT | ASSIGN_OR \<Rightarrow> ASSIGNMENT | ASSIGN_XOR \<Rightarrow> ASSIGNMENT
      | BINARY_PLUS \<Rightarrow> SYMMETRIC | BINARY_MINUS \<Rightarrow> SYMMETRIC | BINARY_MULTIPLY \<Rightarrow> SYMMETRIC
      | BINARY_DIVIDE \<Rightarrow> SYMMETRIC | BINARY_MODULO \<Rightarrow> SYMMETRIC
      | BINARY_SHIFT_LEFT \<Rightarrow> SYMMETRIC | BINARY_SHIFT_RIGHT \<Rightarrow> SYMMETRIC
      | BINARY_AND \<Rightarrow> SYMMETRIC | BINARY_OR \<Rightarrow> SYMMETRIC | BINARY_XOR \<Rightarrow> SYMMETRIC
      | LOGICAL_AND \<Rightarrow> SYMMETRIC | LOGICAL_OR \<Rightarrow> SYMMETRIC | COLON \<Rightarrow> SYMMETRIC
      | COMPARE_EQUAL \<Rightarrow> COMPARISON | COMPARE_NOT_EQUAL \<Rightarrow> COMPARISON
      | COMPARE_LESS \<Rightarrow> COMPARISON | COMPARE_LESS_OR_EQUAL \<Rightarrow> COMPARISON
      | COMPARE_GREATER \<Rightarrow> COMPARISON | COMPARE_GREATER_OR_EQUAL \<Rightarrow> COMPARISON
      | QUESTIONMARK \<Rightarrow> TRINARY
      | _ \<Rightarrow> UNKNOWN)"

definition signaturesSymmetric :: "BinaryOperatorSignature list" where
  "signaturesSymmetric =
     [\<lparr>mLeft = INT_64, mRight = INT_64, mResult = INT_64\<rparr>,
      \<lparr>mLeft = UINT_64, mRight = UINT_64, mResult = UINT_64\<rparr>,
      \<lparr>mLeft = INT_32, mRight = INT_32, mResult = INT_32\<rparr>,
      \<lparr>mLeft = UINT_32, mRight = UINT_32, mResult = UINT_32\<rparr>,
      \<lparr>mLeft = INT_16, mRight = INT_16, mResult = INT_16\<rparr>,
      \<lparr>mLeft = UINT_16, mRight = UINT_16, mResult = UINT_16\<rparr>,
      \<lparr>mLeft = INT_8, mRight = INT_8, mResult = INT_8\<rparr>,
      \<lparr>mLeft = UINT_8, mRight = UINT_8, mResult = UINT_8\<rparr>]"

definition signaturesComparison :: "BinaryOperatorSignature list" where
  "signaturesComparison =
     [\<lparr>mLeft = INT_64, mRight = INT_64, mResult = BOOL\<rparr>,
      \<lparr>mLeft = UINT_64, mRight = UINT_64, mResult = BOOL\<rparr>,
      \<lparr>mLeft = INT_32, mRight = INT_32, mResult = BOOL\<rparr>,
      \<lparr>mLeft = UINT_32, mRight = UINT_32, mResult = BOOL\<rparr>,
      \<lparr>mLeft = INT_16, mRight = INT_16, mResult = BOOL\<rparr>,
      \<lparr>mLeft = UINT_16, mRight = UINT_16, mResult = BOOL\<rparr>,
      \<lparr>mLeft = INT_8, mRight = INT_8, mResult = BOOL\<rparr>,
      \<lparr>mLeft = UINT_8, mRight = UINT_8, mResult = BOOL\<rparr>]"

definition signaturesTrinary :: "BinaryOperatorSignature list" where
  "signaturesTrinary =
     [\<lparr>mLeft = BOOL, mRight = INT_64, mResult = INT_64\<rparr>,
      \<lparr>mLeft = BOOL, mRight = UINT_64, mResult = UINT_64\<rparr>,
      \<lparr>mLeft = BOOL, mRight = INT_32, mResult = INT_32\<rparr>,
      \<lparr>mLeft = BOOL, mRight = UINT_32, mResult = UINT_32\<rparr>,
      \<lparr>mLeft = BOOL, mRight = INT_16, mResult = INT_16\<rparr>,
      \<lparr>mLeft = BOOL, mRight = UINT_16, mResult = UINT_16\<rparr>,
      \<lparr>mLeft = BOOL, mRight = INT_8, mResult = INT_8\<rparr>,
      \<lparr>mLeft = BOOL, mRight = UINT_8, mResult = UINT_8\<rparr>]"

text \<open>The loop of \<^verbatim>\<open>getBestSignature\<close> over the signatures.\<close>

fun bestSignatureLoop ::
  "BinaryOperatorSignature list \<Rightarrow> bool \<Rightarrow> DataTypeDefinition \<Rightarrow> DataTypeDefinition \<Rightarrow>
   16 word \<Rightarrow> BinaryOperatorSignature option \<Rightarrow> 16 word \<times> BinaryOperatorSignature option" where
  "bestSignatureLoop [] exactMatchLeftRequired left right bestPriority outSignature =
     (bestPriority, outSignature)"
| "bestSignatureLoop (signature # signatures) exactMatchLeftRequired left right bestPriority outSignature =
     (if exactMatchLeftRequired \<and> mLeft signature \<noteq> left
      then bestSignatureLoop signatures exactMatchLeftRequired left right bestPriority outSignature
      else
        (let priority = getPriorityOfSignature_binary signature left right
         in if priority < bestPriority
            then bestSignatureLoop signatures exactMatchLeftRequired left right priority (Some signature)
            else bestSignatureLoop signatures exactMatchLeftRequired left right bestPriority outSignature))"

text \<open>
  \<^verbatim>\<open>getBestSignature\<close>: \<open>Inr (Some signature)\<close> is \<^verbatim>\<open>return true\<close> with \<^verbatim>\<open>*outSignature\<close> set,
  \<open>Inr None\<close> is \<^verbatim>\<open>return false\<close>.
\<close>

definition getBestSignature ::
  "Operator \<Rightarrow> DataTypeDefinition \<Rightarrow> DataTypeDefinition \<Rightarrow> error + BinaryOperatorSignature option" where
  "getBestSignature op left right =
     (case (case getOperatorType op of
              ASSIGNMENT \<Rightarrow> Inr (signaturesSymmetric, True)
            | SYMMETRIC \<Rightarrow> Inr (signaturesSymmetric, False)
            | COMPARISON \<Rightarrow> Inr (signaturesComparison, False)
            | TRINARY \<Rightarrow> Inr (signaturesTrinary, False)
            | UNKNOWN \<Rightarrow> Inl (CompileError ''Unknown operator type'')) of
        Inl e \<Rightarrow> Inl e
      | Inr (signatures, exactMatchLeftRequired) \<Rightarrow>
          (case bestSignatureLoop signatures exactMatchLeftRequired left right 0xff00 None of
             (bestPriority, outSignature) \<Rightarrow>
               Inr (if bestPriority \<noteq> 0xff00 then outSignature else None)))"

section \<open>Type assignment\<close>

text \<open>The parameter tokens of a function call, from the content of its parenthesis.\<close>

fun parameterTokensOfLists :: "Token list list \<Rightarrow> error + Token list" where
  "parameterTokensOfLists [] = Inr []"
| "parameterTokensOfLists (tokens # tokenLists) =
     (if length tokens \<noteq> 1
      then Inl (CompileError ''Function parameter content must be one token'')
      else if \<not> isStatement (tokens ! 0)
      then Inl (CompileError ''Function parameter content must be a statement'')
      else map_sum id (Cons (tokens ! 0)) (parameterTokensOfLists tokenLists))"

definition parameterTokensOf :: "Token list \<Rightarrow> error + Token list" where
  "parameterTokensOf content =
     (if content = [] then Inr []
      else
        (case content ! 0 of
           CommaSeparatedListToken tokenLists \<Rightarrow> parameterTokensOfLists tokenLists
         | _ \<Rightarrow>
             if length content \<noteq> 1
             then Inl (CompileError ''Function parameter content must be one token'')
             else if \<not> isStatement (content ! 0)
             then Inl (CompileError ''Function parameter content must be a statement'')
             else Inr [content ! 0]))"

text \<open>
  The parameter tokens are changed in place; this puts the changed tokens back where
  \<^verbatim>\<open>parameterTokensOf\<close> took them from.
\<close>

definition storeParameterTokens :: "Token list \<Rightarrow> Token list \<Rightarrow> Token list" where
  "storeParameterTokens content parameterTokens =
     (if content = [] then content
      else
        (case content ! 0 of
           CommaSeparatedListToken tokenLists \<Rightarrow>
             content[0 := CommaSeparatedListToken (map (\<lambda>token. [token]) parameterTokens)]
         | _ \<Rightarrow> parameterTokens))"

text \<open>\<^verbatim>\<open>std::to_string\<close> of an index.\<close>

function to_string :: "nat \<Rightarrow> string" where
  "to_string n =
     (if n < 10 then [char_of (48 + n)]
      else to_string (n div 10) @ [char_of (48 + n mod 10)])"
  by pat_completeness auto
termination
  by (relation "measure id") auto

declare to_string.simps [simp del]

text \<open>The checks of a base call: the loop over the parameter types from index \<open>i\<close> on.\<close>

function checkBaseCallParameters ::
  "DataTypeDefinition option list \<Rightarrow> Parameter list \<Rightarrow> nat \<Rightarrow> error + unit" where
  "checkBaseCallParameters parameterTypes parameters i =
     (if i < length parameterTypes then
        (case at parameters i of Inl e \<Rightarrow> Inl e | Inr parameter \<Rightarrow>
         if parameterTypes ! i \<noteq> Some (mType parameter)
         then Inl (CompileError (''Base function call has different parameter at index '' @ to_string i))
         else checkBaseCallParameters parameterTypes parameters (i + 1))
      else Inr ())"
  by pat_completeness auto
termination
  by (relation "measure (\<lambda>(types, parameters, i). length types - i)") auto

declare checkBaseCallParameters.simps [simp del]

text \<open>
  The loop over the candidates of \<^verbatim>\<open>assignStatementDataType\<close>, with the current
  \<^verbatim>\<open>bestPriority\<close> and \<^verbatim>\<open>function\<close>.
\<close>

fun findBestOverload ::
  "DataTypeDefinition option list \<Rightarrow> Function list \<Rightarrow> 32 word \<Rightarrow> Function option \<Rightarrow>
   error + 32 word \<times> Function option" where
  "findBestOverload parameterTypes [] bestPriority function = Inr (bestPriority, function)"
| "findBestOverload parameterTypes (candidateFunction # functions) bestPriority function =
     (case getPriorityOfSignature parameterTypes (fParameters candidateFunction) of
        Inl e \<Rightarrow> Inl e
      | Inr priority \<Rightarrow>
          if priority < bestPriority
          then findBestOverload parameterTypes functions priority (Some candidateFunction)
          else findBestOverload parameterTypes functions bestPriority function)"

text \<open>
  The choice of the function of a call, after the types of the arguments are known: the
  function and whether it is a base call.
\<close>

definition resolveFunction ::
  "Context \<Rightarrow> string \<Rightarrow> DataTypeDefinition option list \<Rightarrow> error + Function \<times> bool" where
  "resolveFunction ctx functionName parameterTypes =
     (if startsWith functionName ''base.'' \<and> drop 5 functionName = fName (mFunction ctx) then
        (if length parameterTypes \<noteq> length (fParameters (mFunction ctx))
         then Inl (CompileError ''Base function call has different parameter count'')
         else
           (case checkBaseCallParameters parameterTypes (fParameters (mFunction ctx)) 0 of
              Inl e \<Rightarrow> Inl e
            | Inr _ \<Rightarrow> Inr (mFunction ctx, True)))
      else
        (let functions = getFunctionsByName (mGlobalsLookup ctx) functionName
         in if functions = []
            then Inl (CompileError (''Unknown function name '' @ [CHR 0x27] @ functionName @ [CHR 0x27]))
            else
              (case findBestOverload parameterTypes functions 0xff000000 None of
                 Inl e \<Rightarrow> Inl e
               | Inr (bestPriority, function) \<Rightarrow>
                   if \<not> bestPriority < 0xff000000
                   then Inl (CompileError
                     (''No appropriate function overload found calling '' @ [CHR 0x27] @ functionName
                      @ [CHR 0x27] @ '', the number or types of parameters passed are wrong''))
                   else (case function of None \<Rightarrow> Inl NullPointer | Some f \<Rightarrow> Inr (f, False)))))"

text \<open>The implicit casts that the binary case puts around an operand.\<close>

definition castOperand :: "DataTypeDefinition \<Rightarrow> DataTypeDefinition \<Rightarrow> Token \<Rightarrow> Token" where
  "castOperand operandType signatureType operand =
     (if mBytes operandType \<noteq> mBytes signatureType
      then ValueCastToken (Some signatureType) operand
      else operand)"

lemma size_parameterTokensOfLists:
  "parameterTokensOfLists tokenLists = Inr parameterTokens \<Longrightarrow>
   size_list size parameterTokens \<le> size_list (size_list size) tokenLists"
proof (induction tokenLists arbitrary: parameterTokens)
  case Nil
  then show ?case by simp
next
  case (Cons tokens tokenLists)
  from Cons.prems obtain rest where r: "parameterTokensOfLists tokenLists = Inr rest"
    "parameterTokens = tokens ! 0 # rest" "length tokens = 1"
    by (cases "parameterTokensOfLists tokenLists") (auto split: if_splits)
  then obtain t where "tokens = [t]" by (cases tokens) auto
  then show ?case using Cons.IH[OF r(1)] r by simp
qed

lemma size_parameterTokensOf:
  assumes "parameterTokensOf content = Inr parameterTokens"
  shows "size_list size parameterTokens \<le> size_list size content"
proof (cases content)
  case Nil
  then show ?thesis using assms by (simp add: parameterTokensOf_def)
next
  case (Cons t ts)
  show ?thesis
  proof (cases "\<exists>tokenLists. t = CommaSeparatedListToken tokenLists")
    case True
    then obtain tokenLists where t: "t = CommaSeparatedListToken tokenLists" by auto
    then have "parameterTokensOfLists tokenLists = Inr parameterTokens"
      using assms Cons by (simp add: parameterTokensOf_def)
    then show ?thesis using size_parameterTokensOfLists Cons t by fastforce
  next
    case False
    then have "parameterTokens = [t]" "ts = []"
      using assms Cons by (cases t; auto simp: parameterTokensOf_def split: if_splits)+
    then show ?thesis using Cons by simp
  qed
qed

function assignStatementDataType ::
    "Context \<Rightarrow> Token \<Rightarrow> DataTypeDefinition option \<Rightarrow> error + Token"
  and assignParameterTypes :: "Context \<Rightarrow> Token list \<Rightarrow> error + Token list" where
  "assignStatementDataType ctx token resultType =
     (case token of
        ConstantToken dataType constValue \<Rightarrow>
          Inr (ConstantToken (Some (case resultType of Some type \<Rightarrow> type | None \<Rightarrow> CONST_INT)) constValue)
      | VariableToken dataType variable \<Rightarrow>
          Inr (VariableToken (Some (vDataType variable)) variable)
      | FunctionToken dataType functionName function parenthesisDataType parenthesisType content isBaseCall \<Rightarrow>
          (case parameterTokensOf content of Inl e \<Rightarrow> Inl e | Inr parameterTokens \<Rightarrow>
           case assignParameterTypes ctx parameterTokens of Inl e \<Rightarrow> Inl e | Inr parameterTokens' \<Rightarrow>
           case resolveFunction ctx functionName (map mDataType parameterTokens') of
             Inl e \<Rightarrow> Inl e
           | Inr (function', isBaseCall') \<Rightarrow>
               Inr (FunctionToken (Some (fReturnType function')) functionName (Some function')
                      parenthesisDataType parenthesisType
                      (storeParameterTokens content parameterTokens')
                      (isBaseCall \<or> isBaseCall')))
      | MemoryAccessToken dataType address \<Rightarrow>
          (case assignStatementDataType ctx address (Some UINT_32) of
             Inl e \<Rightarrow> Inl e
           | Inr address' \<Rightarrow> Inr (MemoryAccessToken dataType address'))
      | ParenthesisToken dataType parenthesisType content \<Rightarrow>
          if length content \<noteq> 1
          then Inl (CompileError ''Parenthesis content must be one token'')
          else if \<not> isStatement (content ! 0)
          then Inl (CompileError ''Parenthesis content must be a statement'')
          else
            (case assignStatementDataType ctx (content ! 0) resultType of
               Inl e \<Rightarrow> Inl e
             | Inr innerStatement \<Rightarrow>
                 Inr (ParenthesisToken (mDataType innerStatement) parenthesisType [innerStatement]))
      | UnaryOperationToken dataType op argument \<Rightarrow>
          (case assignStatementDataType ctx argument resultType of
             Inl e \<Rightarrow> Inl e
           | Inr argument' \<Rightarrow> Inr (UnaryOperationToken (mDataType argument') op argument'))
      | BinaryOperationToken dataType op left right \<Rightarrow>
          (let opType = getOperatorType op;
               expectedType = (if opType = SYMMETRIC then resultType else None)
           in case assignStatementDataType ctx left expectedType of Inl e \<Rightarrow> Inl e | Inr left' \<Rightarrow>
              case assignStatementDataType ctx right
                     (if opType = ASSIGNMENT then mDataType left' else expectedType) of
                Inl e \<Rightarrow> Inl e
              | Inr right' \<Rightarrow>
                  (case (mDataType left', mDataType right') of
                     (Some leftDataType, Some rightDataType) \<Rightarrow>
                       (case getBestSignature op leftDataType rightDataType of
                          Inl e \<Rightarrow> Inl e
                        | Inr None \<Rightarrow>
                            Inl (CompileError
                              (''Can not implicitly cast between types '' @ [CHR 0x27]
                               @ mName leftDataType @ [CHR 0x27] @ '' and '' @ [CHR 0x27]
                               @ mName rightDataType @ [CHR 0x27]))
                        | Inr (Some signature) \<Rightarrow>
                            if opType \<noteq> TRINARY \<and> mClass leftDataType = INTEGER
                               \<and> mClass rightDataType = INTEGER
                            then Inr (BinaryOperationToken (Some (mResult signature)) op
                                        (castOperand leftDataType (mLeft signature) left')
                                        (castOperand rightDataType (mRight signature) right'))
                            else Inr (BinaryOperationToken (Some (mResult signature)) op left' right'))
                   | _ \<Rightarrow>
                       if opType = UNKNOWN then Inl (CompileError ''Unknown operator type'')
                       else Inl NullPointer))
      | ValueCastToken dataType argument \<Rightarrow>
          (case assignStatementDataType ctx argument dataType of
             Inl e \<Rightarrow> Inl e
           | Inr argument' \<Rightarrow>
               (case getImplicitCastPriority_ptr (mDataType argument') dataType of
                  Inl e \<Rightarrow> Inl e
                | Inr priority \<Rightarrow>
                    if \<not> priority \<noteq> 0xff
                    then Inl (CompileError ''Explicit cast not possible'')
                    else Inr (ValueCastToken dataType argument')))
      | _ \<Rightarrow> Inr token)"
| "assignParameterTypes ctx [] = Inr []"
| "assignParameterTypes ctx (parameterToken # parameterTokens) =
     (case assignStatementDataType ctx parameterToken None of
        Inl e \<Rightarrow> Inl e
      | Inr parameterToken' \<Rightarrow>
          (case assignParameterTypes ctx parameterTokens of
             Inl e \<Rightarrow> Inl e
           | Inr parameterTokens' \<Rightarrow> Inr (parameterToken' # parameterTokens')))"
  by pat_completeness auto
termination
proof (relation "measure (\<lambda>x. case x of Inl (ctx, token, resultType) \<Rightarrow> size token
                                     | Inr (ctx, tokens) \<Rightarrow> size_list size tokens)", goal_cases)
  case (2 ctx token resultType x81 x82 x83 x84 x85 content x87 parameterTokens)
  then show ?case using size_parameterTokensOf[of content parameterTokens] by simp
next
  case (4 ctx token resultType x101 x102 content)
  then obtain t where "content = [t]" by (cases content) auto
  then show ?case using 4 by simp
qed simp_all

declare assignStatementDataType.simps [simp del]

text \<open>
  Modelled from the spec: the key of a list of costs. The costs are sorted in descending
  order; the highest cost is the most significant byte of the key, the next three follow,
  and the bytes of costs that do not exist are 0.
\<close>

definition spec_costAt :: "8 word list \<Rightarrow> nat \<Rightarrow> 32 word" where
  "spec_costAt costs i = (if i < length costs then ucast (costs ! i) else 0)"

definition spec_packedKey :: "8 word list \<Rightarrow> 32 word" where
  "spec_packedKey costs =
     (let sorted = rev (sort costs)
      in push_bit 24 (spec_costAt sorted 0) OR push_bit 16 (spec_costAt sorted 1)
         OR push_bit 8 (spec_costAt sorted 2) OR spec_costAt sorted 3)"

text \<open>The costs of the implicit casts from the argument types to the types of the parameters.\<close>

definition parameterCosts :: "DataTypeDefinition option list \<Rightarrow> Parameter list \<Rightarrow> 8 word list" where
  "parameterCosts original target =
     map (\<lambda>(type, parameter). getImplicitCastPriority (the type) (mType parameter)) (zip original target)"

text \<open>A call by the name \<open>functionName\<close> is a base call of the function being compiled.\<close>

definition isBaseCallName :: "Context \<Rightarrow> string \<Rightarrow> bool" where
  "isBaseCallName ctx functionName \<longleftrightarrow>
     startsWith functionName ''base.'' \<and> drop 5 functionName = fName (mFunction ctx)"

text \<open>
  The invariant of the scan: after the tokens before index \<open>i\<close>, \<^verbatim>\<open>bestPosition\<close> is 0 and
  \<^verbatim>\<open>bestPriority\<close> is \<open>0xff\<close> when no operator was met; otherwise \<^verbatim>\<open>bestPosition\<close> holds an
  operator of priority \<^verbatim>\<open>bestPriority\<close>, no operator met has a smaller priority value, and
  among the operators of that priority it is the last one met when the priority is
  right-to-left associative and the first one otherwise.
\<close>

definition scanInv :: "Token list \<Rightarrow> nat \<Rightarrow> 8 word \<Rightarrow> nat \<Rightarrow> bool" where
  "scanInv tokens i bp pos \<longleftrightarrow>
     (if pos = 0 then bp = 0xff \<and> (\<forall>j<i. getType (tokens ! j) \<noteq> Type_OPERATOR)
      else pos < i \<and>
           (\<exists>op. tokens ! pos = OperatorToken op \<and> operatorPriorityLookup ! operatorIndex op = bp) \<and>
           (\<forall>j<i. \<forall>opj. tokens ! j = OperatorToken opj \<longrightarrow>
              bp \<le> operatorPriorityLookup ! operatorIndex opj \<and>
              (operatorPriorityLookup ! operatorIndex opj = bp \<longrightarrow>
                 (if operatorAssociativityLookup ! unat bp then j \<le> pos else pos \<le> j))))"




text \<open>
  A type name followed by a bracket group, and such a pair whose bracket content is not
  exactly one statement token.
\<close>

definition isBracketPairAt :: "Token list \<Rightarrow> nat \<Rightarrow> bool" where
  "isBracketPairAt tokens k \<longleftrightarrow>
     k + 1 < length tokens \<and> getType (tokens ! k) = Type_VARTYPE \<and>
     (case tokens ! (k + 1) of ParenthesisToken d BRACKET content \<Rightarrow> True | _ \<Rightarrow> False)"

definition badBracketAt :: "Token list \<Rightarrow> nat \<Rightarrow> bool" where
  "badBracketAt tokens k \<longleftrightarrow>
     k + 1 < length tokens \<and> getType (tokens ! k) = Type_VARTYPE \<and>
     (case tokens ! (k + 1) of
        ParenthesisToken d BRACKET content \<Rightarrow> \<not> (length content = 1 \<and> isStatement (content ! 0))
      | _ \<Rightarrow> False)"

text \<open>
  What the spec says of the memory accesses, as a function of its own: from left to right
  a type name immediately followed by a bracket group with exactly one statement token
  inside becomes a memory access token, with the type as data type and the statement as
  address; every other token stays.
\<close>

definition memoryAccessOf :: "Token \<Rightarrow> Token \<Rightarrow> Token option" where
  "memoryAccessOf token next =
     (case token of
        VarTypeToken dataType \<Rightarrow>
          (case next of
             ParenthesisToken d BRACKET [address] \<Rightarrow>
               if isStatement address then Some (MemoryAccessToken (Some dataType) address) else None
           | _ \<Rightarrow> None)
      | _ \<Rightarrow> None)"

fun spec_collapseMemoryAccesses :: "Token list \<Rightarrow> Token list" where
  "spec_collapseMemoryAccesses (token # next # rest) =
     (case memoryAccessOf token next of
        Some memoryAccess \<Rightarrow> memoryAccess # spec_collapseMemoryAccesses rest
      | None \<Rightarrow> token # spec_collapseMemoryAccesses (next # rest))"
| "spec_collapseMemoryAccesses tokens = tokens"

section \<open>Example values\<close>

definition ctx0 :: Context where
  "ctx0 = \<lparr>mGlobalsLookup = \<lparr>getDefineByName = (\<lambda>name. None),
                                 getFunctionsByName = (\<lambda>name. []),
                                 getGlobalVariableByName = (\<lambda>name. None)\<rparr>,
           mFunction = \<lparr>fName = ''main'', fReturnType = VOID_DATATYPE, fParameters = []\<rparr>,
           mLocalVariables = []\<rparr>"

definition empty_bracket :: "Token list" where
  "empty_bracket = [VarTypeToken INT_32, ParenthesisToken None BRACKET []]"




definition var_a :: Variable where
  "var_a = \<lparr>vName = ''a'', vDataType = INT_32\<rparr>"

definition var_b :: Variable where
  "var_b = \<lparr>vName = ''b'', vDataType = INT_32\<rparr>"

definition var_c :: Variable where
  "var_c = \<lparr>vName = ''c'', vDataType = INT_32\<rparr>"

definition a_assign_access :: "Token list" where
  "a_assign_access =
     [VariableToken None var_a, OperatorToken ASSIGN, VarTypeToken INT_32,
      ParenthesisToken None BRACKET [VariableToken None var_b]]"





definition f_int32 :: Function where
  "f_int32 = \<lparr>fName = ''f'', fReturnType = INT_32,
             fParameters = [\<lparr>mIdentifier = ''x'', mType = INT_32\<rparr>]\<rparr>"

definition f_int64 :: Function where
  "f_int64 = \<lparr>fName = ''f'', fReturnType = INT_64,
             fParameters = [\<lparr>mIdentifier = ''x'', mType = INT_64\<rparr>]\<rparr>"

definition g_void :: Function where
  "g_void = \<lparr>fName = ''g'', fReturnType = VOID_DATATYPE, fParameters = []\<rparr>"

definition var_u16 :: Variable where
  "var_u16 = \<lparr>vName = ''v'', vDataType = UINT_16\<rparr>"

definition var_s8 :: Variable where
  "var_s8 = \<lparr>vName = ''w'', vDataType = INT_8\<rparr>"

definition ctx_f :: Context where
  "ctx_f = \<lparr>mGlobalsLookup =
              \<lparr>getDefineByName = (\<lambda>name. None),
               getFunctionsByName = (\<lambda>name. if name = ''f'' then [f_int32, f_int64]
                                              else if name = ''f2'' then [f_int64, f_int32]
                                              else if name = ''g'' then [g_void] else []),
               getGlobalVariableByName = (\<lambda>name. None)\<rparr>,
            mFunction = \<lparr>fName = ''main'', fReturnType = VOID_DATATYPE, fParameters = []\<rparr>,
            mLocalVariables = []\<rparr>"

definition call_f_u16 :: Token where
  "call_f_u16 = FunctionToken None ''f'' None None PARENTHESIS [VariableToken None var_u16] False"

definition call_g :: Token where
  "call_g = FunctionToken None ''g'' None None PARENTHESIS [] False"

definition a_assign_b_assign_c :: "Token list" where
  "a_assign_b_assign_c =
     [VariableToken None var_a, OperatorToken ASSIGN, VariableToken None var_b,
      OperatorToken ASSIGN, VariableToken None var_c]"

section \<open>Verified properties\<close>

subsection \<open>Implicit cast cost\<close>

lemma word8_le_7_cases:
  fixes x :: "8 word"
  assumes "x \<le> 7"
  shows "x = 0 \<or> x = 1 \<or> x = 2 \<or> x = 3 \<or> x = 4 \<or> x = 5 \<or> x = 6 \<or> x = 7"
proof -
  have "unat x \<le> 7" using assms by (simp add: word_le_nat_alt)
  then have "unat x = 0 \<or> unat x = 1 \<or> unat x = 2 \<or> unat x = 3 \<or>
             unat x = 4 \<or> unat x = 5 \<or> unat x = 6 \<or> unat x = 7"
    by arith
  moreover have "x = of_nat (unat x)" by simp
  ultimately show ?thesis by (elim disjE) simp_all
qed

lemma base_cost_plus_delta:
  fixes x y c :: "8 word"
  assumes "x \<le> 7" and "y \<le> 7" and "c = 0x10 \<or> c = 0x20 \<or> c = 0x30 \<or> c = 0x40"
  shows "2 < c + (y - x) \<and> c + (y - x) < 0xff"
  using word8_le_7_cases[OF assms(1)] word8_le_7_cases[OF assms(2)] assms(3)
  by (elim disjE) simp_all

lemma getImplicitCastPriority_cascade:
  "getImplicitCastPriority original target =
     (if original = target then 0
      else if mClass original \<noteq> INTEGER \<or> mClass target \<noteq> INTEGER then 0xff
      else if mSemantics original = CONSTANT \<or> mSemantics target = CONSTANT then 1
      else if mBytes original = mBytes target
           then (if mIsSigned original \<and> \<not> mIsSigned target then 2 else 1)
      else if mBytes original < mBytes target
           then (if mIsSigned original \<and> \<not> mIsSigned target then 0x20 else 0x10)
                + sizeDelta original target
      else (if mIsSigned original \<and> \<not> mIsSigned target then 0x40 else 0x30)
           + sizeDelta original target)"
  by (simp add: getImplicitCastPriority_def sizeDelta_def CANNOT_CAST_def Let_def)

lemma width_changing_cost:
  assumes "mClass S = INTEGER" and "mClass T = INTEGER"
    and "mSemantics S \<noteq> CONSTANT" and "mSemantics T \<noteq> CONSTANT"
    and "mBytes S \<noteq> mBytes T"
  shows "2 < getImplicitCastPriority S T \<and> getImplicitCastPriority S T < 0xff"
proof -
  have ne: "S \<noteq> T" using assms(5) by auto
  have d: "\<And>c::8 word. c = 0x10 \<or> c = 0x20 \<or> c = 0x30 \<or> c = 0x40 \<Longrightarrow>
      2 < c + sizeDelta S T \<and> c + sizeDelta S T < 0xff"
    unfolding sizeDelta_def by (rule base_cost_plus_delta[OF word_and_le1 word_and_le1])
  show ?thesis
    using ne assms d[of "0x10"] d[of "0x20"] d[of "0x30"] d[of "0x40"]
    by (simp add: getImplicitCastPriority_cascade)
qed

lemma constant_to_fixed_width:
  assumes "T \<in> set fixedWidthTypes"
  shows "getImplicitCastPriority CONST_INT T = 1"
  using assms
  by (auto simp: fixedWidthTypes_def getImplicitCastPriority_cascade predefined_defs)

text \<open>
  C2, the claim as the code has it. The cost of an implicit cast is 0 for identical types;
  the sentinel \<open>0xff\<close> when one of two different types is no integer; 1 when one of the
  two integer types is the constant integer; for two integer types of equal width 2 from
  signed to unsigned and 1 otherwise; \<open>0x10 + sizeDelta\<close> for a widening cast and
  \<open>0x20 + sizeDelta\<close> for a widening cast from signed to unsigned; \<open>0x30 + sizeDelta\<close> and
  \<open>0x40 + sizeDelta\<close> for the narrowing casts, \<open>sizeDelta\<close> being the difference of the size
  classes in 8-bit arithmetic. A cast of the constant integer to a fixed-width type costs
  1; a cast between differently signed types of equal width costs 2 from signed to
  unsigned and 1 from unsigned to signed (no more than the cast of a constant, and the
  same as it in that direction); every cast between integer types of different widths
  costs more than 2 and less than the sentinel.
\<close>

theorem getImplicitCastPriority_costs:
  "getImplicitCastPriority original target =
     (if original = target then 0
      else if mClass original \<noteq> INTEGER \<or> mClass target \<noteq> INTEGER then 0xff
      else if mSemantics original = CONSTANT \<or> mSemantics target = CONSTANT then 1
      else if mBytes original = mBytes target
           then (if mIsSigned original \<and> \<not> mIsSigned target then 2 else 1)
      else if mBytes original < mBytes target
           then (if mIsSigned original \<and> \<not> mIsSigned target then 0x20 else 0x10)
                + sizeDelta original target
      else (if mIsSigned original \<and> \<not> mIsSigned target then 0x40 else 0x30)
           + sizeDelta original target)
   \<and> (mClass original = INTEGER \<and> mClass target = INTEGER \<and>
        mSemantics original \<noteq> CONSTANT \<and> mSemantics target \<noteq> CONSTANT \<and>
        mBytes original \<noteq> mBytes target \<longrightarrow>
        2 < getImplicitCastPriority original target \<and> getImplicitCastPriority original target < 0xff)
   \<and> (fixedWidth \<in> set fixedWidthTypes \<longrightarrow>
        getImplicitCastPriority CONST_INT fixedWidth = 1 \<and>
        (\<forall>other \<in> set fixedWidthTypes.
           mBytes other = mBytes fixedWidth \<and> mIsSigned other \<noteq> mIsSigned fixedWidth \<longrightarrow>
           getImplicitCastPriority other fixedWidth = (if mIsSigned other then 2 else 1)))"
proof (intro conjI impI ballI)
  show "getImplicitCastPriority original target =
     (if original = target then 0
      else if mClass original \<noteq> INTEGER \<or> mClass target \<noteq> INTEGER then 0xff
      else if mSemantics original = CONSTANT \<or> mSemantics target = CONSTANT then 1
      else if mBytes original = mBytes target
           then (if mIsSigned original \<and> \<not> mIsSigned target then 2 else 1)
      else if mBytes original < mBytes target
           then (if mIsSigned original \<and> \<not> mIsSigned target then 0x20 else 0x10)
                + sizeDelta original target
      else (if mIsSigned original \<and> \<not> mIsSigned target then 0x40 else 0x30)
           + sizeDelta original target)"
    by (rule getImplicitCastPriority_cascade)
next
  assume "mClass original = INTEGER \<and> mClass target = INTEGER \<and>
        mSemantics original \<noteq> CONSTANT \<and> mSemantics target \<noteq> CONSTANT \<and>
        mBytes original \<noteq> mBytes target"
  then have w: "2 < getImplicitCastPriority original target \<and>
      getImplicitCastPriority original target < 0xff"
    by (intro width_changing_cost) simp_all
  from w show "2 < getImplicitCastPriority original target" ..
  from w show "getImplicitCastPriority original target < 0xff" ..
next
  assume "fixedWidth \<in> set fixedWidthTypes"
  then show "getImplicitCastPriority CONST_INT fixedWidth = 1"
    by (rule constant_to_fixed_width)
next
  fix other
  assume f: "fixedWidth \<in> set fixedWidthTypes" and o: "other \<in> set fixedWidthTypes"
    and h: "mBytes other = mBytes fixedWidth \<and> mIsSigned other \<noteq> mIsSigned fixedWidth"
  have "mClass other = INTEGER" "mClass fixedWidth = INTEGER"
       "mSemantics other \<noteq> CONSTANT" "mSemantics fixedWidth \<noteq> CONSTANT"
    using f o by (auto simp: fixedWidthTypes_def predefined_defs)
  moreover have "other \<noteq> fixedWidth" using h by auto
  ultimately show "getImplicitCastPriority other fixedWidth = (if mIsSigned other then 2 else 1)"
    using h by (auto simp: getImplicitCastPriority_cascade)
qed

theorem getImplicitCastPriority_costs_witness:
  "getImplicitCastPriority INT_8 UINT_64 = 0x23
   \<and> 2 < getImplicitCastPriority INT_8 UINT_64 \<and> getImplicitCastPriority INT_8 UINT_64 < 0xff
   \<and> getImplicitCastPriority CONST_INT UINT_32 = 1
   \<and> getImplicitCastPriority INT_32 UINT_32 = 2"
  using getImplicitCastPriority_costs[of INT_8 UINT_64 UINT_32]
  by (simp add: fixedWidthTypes_def sizeDelta_def getBaseType_def predefined_defs)

text \<open>
  C2 as stated fails for the cast from unsigned to signed of equal width: it costs 1, as
  much as the cast of a constant, not more.
\<close>

theorem equal_width_cast_counterexample:
  "mBytes UINT_32 = mBytes INT_32 \<and> mIsSigned UINT_32 \<noteq> mIsSigned INT_32
   \<and> \<not> getImplicitCastPriority CONST_INT INT_32 < getImplicitCastPriority UINT_32 INT_32"
  by (simp add: getImplicitCastPriority_def predefined_defs)

subsection \<open>Selection of the operator to fold\<close>

lemma priority_le_18: "operatorPriorityLookup ! operatorIndex op \<le> 18"
  by (cases op) (simp_all add: operatorPriorityLookup_def)

lemma priority_ne_ff: "operatorPriorityLookup ! operatorIndex op \<noteq> 0xff"
  using priority_le_18[of op] by auto

lemma getType_OPERATOR: "getType t = Type_OPERATOR \<longleftrightarrow> (\<exists>op. t = OperatorToken op)"
  by (cases t) auto

lemma asOperator_Inr: "asOperator t = Inr op \<longleftrightarrow> t = OperatorToken op"
  by (cases t) (auto simp: asOperator_def)

lemma scanInv_skip:
  assumes "scanInv tokens i bp pos" "getType (tokens ! i) \<noteq> Type_OPERATOR"
  shows "scanInv tokens (Suc i) bp pos"
  using assms unfolding scanInv_def
  by (auto simp: less_Suc_eq getType_OPERATOR)

lemma scanInv_take:
  assumes inv: "scanInv tokens i bp pos" and op: "tokens ! i = OperatorToken op" and i: "0 < i"
    and lower: "(if p = bp then at operatorAssociativityLookup (unat p) else Inr (p < bp)) = Inr True"
    and p: "p = operatorPriorityLookup ! operatorIndex op"
  shows "scanInv tokens (Suc i) p i"
proof -
  have bp: "p = bp \<Longrightarrow> operatorAssociativityLookup ! unat p" "p \<noteq> bp \<Longrightarrow> p < bp"
    using lower by (auto simp: at_def split: if_splits)
  have earlier: "p \<le> operatorPriorityLookup ! operatorIndex opj \<and>
      (operatorPriorityLookup ! operatorIndex opj = p \<longrightarrow>
         (if operatorAssociativityLookup ! unat p then j \<le> i else i \<le> j))"
    if j: "j < i" and opj: "tokens ! j = OperatorToken opj" for j opj
  proof (cases "pos = 0")
    case True
    then have "getType (tokens ! j) \<noteq> Type_OPERATOR"
      using inv j unfolding scanInv_def by simp
    then show ?thesis using opj by simp
  next
    case False
    then have le: "bp \<le> operatorPriorityLookup ! operatorIndex opj"
      using inv j opj unfolding scanInv_def by simp
    show ?thesis
    proof (cases "p = bp")
      case True
      then show ?thesis using le bp(1) j by simp
    next
      case False
      then have "p < operatorPriorityLookup ! operatorIndex opj"
        using bp(2) le by simp
      then show ?thesis by auto
    qed
  qed
  have "\<forall>j<Suc i. \<forall>opj. tokens ! j = OperatorToken opj \<longrightarrow>
      p \<le> operatorPriorityLookup ! operatorIndex opj \<and>
      (operatorPriorityLookup ! operatorIndex opj = p \<longrightarrow>
         (if operatorAssociativityLookup ! unat p then j \<le> i else i \<le> j))"
  proof (intro allI impI)
    fix j opj
    assume "j < Suc i" and opj: "tokens ! j = OperatorToken opj"
    then consider "j < i" | "j = i" by linarith
    then show "p \<le> operatorPriorityLookup ! operatorIndex opj \<and>
      (operatorPriorityLookup ! operatorIndex opj = p \<longrightarrow>
         (if operatorAssociativityLookup ! unat p then j \<le> i else i \<le> j))"
    proof cases
      case 1
      then show ?thesis using earlier opj by blast
    next
      case 2
      then show ?thesis using op opj p by simp
    qed
  qed
  then show ?thesis using op p i unfolding scanInv_def by simp
qed

lemma scanInv_keep:
  assumes inv: "scanInv tokens i bp pos" and op: "tokens ! i = OperatorToken op" and i: "0 < i"
    and lower: "(if p = bp then at operatorAssociativityLookup (unat p) else Inr (p < bp)) = Inr False"
    and p: "p = operatorPriorityLookup ! operatorIndex op"
  shows "scanInv tokens (Suc i) bp pos"
proof -
  have bp: "p = bp \<Longrightarrow> \<not> operatorAssociativityLookup ! unat p" "p \<noteq> bp \<Longrightarrow> \<not> p < bp"
    using lower by (auto simp: at_def split: if_splits)
  have pos: "pos \<noteq> 0"
  proof
    assume "pos = 0"
    then have "bp = 0xff" using inv unfolding scanInv_def by simp
    then have "p < bp" using p priority_le_18[of op] by (simp add: word_less_nat_alt word_le_nat_alt)
    then show False using bp by auto
  qed
  have old: "pos < i"
    "\<exists>op. tokens ! pos = OperatorToken op \<and> operatorPriorityLookup ! operatorIndex op = bp"
    "\<And>j opj. j < i \<Longrightarrow> tokens ! j = OperatorToken opj \<Longrightarrow>
        bp \<le> operatorPriorityLookup ! operatorIndex opj \<and>
        (operatorPriorityLookup ! operatorIndex opj = bp \<longrightarrow>
           (if operatorAssociativityLookup ! unat bp then j \<le> pos else pos \<le> j))"
    using inv pos unfolding scanInv_def by auto
  have "\<forall>j<Suc i. \<forall>opj. tokens ! j = OperatorToken opj \<longrightarrow>
      bp \<le> operatorPriorityLookup ! operatorIndex opj \<and>
      (operatorPriorityLookup ! operatorIndex opj = bp \<longrightarrow>
         (if operatorAssociativityLookup ! unat bp then j \<le> pos else pos \<le> j))"
  proof (intro allI impI)
    fix j opj
    assume "j < Suc i" and opj: "tokens ! j = OperatorToken opj"
    then consider "j < i" | "j = i" by linarith
    then show "bp \<le> operatorPriorityLookup ! operatorIndex opj \<and>
      (operatorPriorityLookup ! operatorIndex opj = bp \<longrightarrow>
         (if operatorAssociativityLookup ! unat bp then j \<le> pos else pos \<le> j))"
    proof cases
      case 1
      then show ?thesis using old(3) opj by blast
    next
      case 2
      then have e: "opj = op" using op opj by simp
      show ?thesis
      proof (cases "p = bp")
        case True
        then show ?thesis using bp(1) e p old(1) 2 by simp
      next
        case False
        then have "bp < p" using bp(2) by simp
        then show ?thesis using e p by auto
      qed
    qed
  qed
  then show ?thesis using old(1,2) pos unfolding scanInv_def by simp
qed

lemma findLowestPriority_end:
  "\<not> i < length tokens \<Longrightarrow> findLowestPriority tokens i bp pos = Inr (bp, pos)"
  by (subst findLowestPriority.simps) simp

lemma findLowestPriority_skip:
  "i < length tokens \<Longrightarrow> getType (tokens ! i) \<noteq> Type_OPERATOR \<Longrightarrow>
   findLowestPriority tokens i bp pos = findLowestPriority tokens (i + 1) bp pos"
  by (subst findLowestPriority.simps) simp

lemma findLowestPriority_operator:
  "i < length tokens \<Longrightarrow> tokens ! i = OperatorToken op \<Longrightarrow>
   findLowestPriority tokens i bp pos =
     (if \<not> ((0 < i \<and> i < size_minus_1 tokens) \<and> op \<noteq> SEMICOLON_SEPARATOR)
      then Inl (CompileError (getOperatorNotAllowedErrorMessage op))
      else
        (case (if operatorPriorityLookup ! operatorIndex op = bp
               then at operatorAssociativityLookup (unat (operatorPriorityLookup ! operatorIndex op))
               else Inr (operatorPriorityLookup ! operatorIndex op < bp)) of
           Inl e \<Rightarrow> Inl e
         | Inr isLower \<Rightarrow>
             if isLower then findLowestPriority tokens (i + 1) (operatorPriorityLookup ! operatorIndex op) i
             else findLowestPriority tokens (i + 1) bp pos))"
  by (subst findLowestPriority.simps) (simp add: asOperator_def Let_def)

lemma findLowestPriority_inv:
  assumes "findLowestPriority tokens i bp pos = Inr (bp', pos')"
    and "i \<le> length tokens" and "scanInv tokens i bp pos"
  shows "scanInv tokens (length tokens) bp' pos'"
  using assms
proof (induction tokens i bp pos rule: findLowestPriority.induct)
  case (1 tokens i bestPriority bestPosition)
  show ?case
  proof (cases "i < length tokens")
    case False
    with "1.prems" show ?thesis by (simp add: findLowestPriority_end)
  next
    case lt: True
    show ?thesis
    proof (cases "getType (tokens ! i) = Type_OPERATOR")
      case False
      have "findLowestPriority tokens (i + 1) bestPriority bestPosition = Inr (bp', pos')"
        using "1.prems"(1) findLowestPriority_skip[OF lt False] by simp
      moreover have "scanInv tokens (i + 1) bestPriority bestPosition"
        using scanInv_skip[OF "1.prems"(3) False] by simp
      ultimately show ?thesis using "1.IH"(3)[OF lt False] lt by simp
    next
      case True
      then obtain op where op: "tokens ! i = OperatorToken op" by (auto simp: getType_OPERATOR)
      then have as: "asOperator (tokens ! i) = Inr op" by (simp add: asOperator_Inr)
      define p where "p = operatorPriorityLookup ! operatorIndex op"
      note step = findLowestPriority_operator[OF lt op, of bestPriority bestPosition, folded p_def]
      from "1.prems"(1) step
      have ok: "(0 < i \<and> i < size_minus_1 tokens) \<and> op \<noteq> SEMICOLON_SEPARATOR"
        by (auto split: if_splits)
      from "1.prems"(1) step ok obtain isLower where
        isl: "(if p = bestPriority then at operatorAssociativityLookup (unat p) else Inr (p < bestPriority)) = Inr isLower"
        by (cases "(if p = bestPriority then at operatorAssociativityLookup (unat p) else Inr (p < bestPriority))") auto
      show ?thesis
      proof (cases isLower)
        case True
        have "findLowestPriority tokens (i + 1) p i = Inr (bp', pos')"
          using "1.prems"(1) step ok isl True by simp
        moreover have "scanInv tokens (i + 1) p i"
          using scanInv_take[OF "1.prems"(3) op _ _ p_def] isl True ok by simp
        ultimately show ?thesis
          using "1.IH"(1)[OF lt \<open>getType (tokens ! i) = Type_OPERATOR\<close> as _ p_def] isl True ok lt
          by simp
      next
        case False
        have "findLowestPriority tokens (i + 1) bestPriority bestPosition = Inr (bp', pos')"
          using "1.prems"(1) step ok isl False by simp
        moreover have "scanInv tokens (i + 1) bestPriority bestPosition"
          using scanInv_keep[OF "1.prems"(3) op _ _ p_def] isl False ok by simp
        ultimately show ?thesis
          using "1.IH"(2)[OF lt \<open>getType (tokens ! i) = Type_OPERATOR\<close> as _ p_def] isl False ok lt
          by simp
      qed
    qed
  qed
qed

lemma scanInv_start: "scanInv tokens 0 0xff 0"
  by (simp add: scanInv_def)

text \<open>
  C1. A scan of \<^verbatim>\<open>processBinaryOperations\<close> that raises no error ends on an operator token
  whose priority value is the smallest of the unit; among the operators of that priority
  it is the leftmost one when the priority is left-to-right associative and the rightmost
  one when it is right-to-left associative (assignment, ternary). So \<open>a = b = c\<close> folds to
  \<open>Assign(a, Assign(b, c))\<close>, not to \<open>Assign(Assign(a, b), c)\<close>, while \<open>a - b - c\<close> folds to
  \<open>Minus(Minus(a, b), c)\<close>.
\<close>

theorem processBinaryOperations_selects_lowest_priority:
  "(findLowestPriority tokens 0 0xff 0 = Inr (bestPriority, bestPosition) \<and>
    j < length tokens \<and> tokens ! j = OperatorToken opj \<longrightarrow>
      0 < bestPosition \<and> bestPosition < length tokens \<and>
      (\<exists>op. tokens ! bestPosition = OperatorToken op \<and>
            operatorPriorityLookup ! operatorIndex op = bestPriority) \<and>
      bestPriority \<le> operatorPriorityLookup ! operatorIndex opj \<and>
      (operatorPriorityLookup ! operatorIndex opj = bestPriority \<longrightarrow>
         (if operatorAssociativityLookup ! unat bestPriority
          then j \<le> bestPosition else bestPosition \<le> j)))
   \<and> processBinaryOperations
         [VariableToken None a, OperatorToken ASSIGN, VariableToken None b,
          OperatorToken ASSIGN, VariableToken None c]
       = Inr [BinaryOperationToken None ASSIGN (VariableToken None a)
               (BinaryOperationToken None ASSIGN (VariableToken None b) (VariableToken None c))]
   \<and> processBinaryOperations
         [VariableToken None a, OperatorToken ASSIGN, VariableToken None b,
          OperatorToken ASSIGN, VariableToken None c]
       \<noteq> Inr [BinaryOperationToken None ASSIGN
               (BinaryOperationToken None ASSIGN (VariableToken None a) (VariableToken None b))
               (VariableToken None c)]
   \<and> processBinaryOperations
         [VariableToken None a, OperatorToken BINARY_MINUS, VariableToken None b,
          OperatorToken BINARY_MINUS, VariableToken None c]
       = Inr [BinaryOperationToken None BINARY_MINUS
               (BinaryOperationToken None BINARY_MINUS (VariableToken None a) (VariableToken None b))
               (VariableToken None c)]"
proof (intro conjI impI)
  assume h: "findLowestPriority tokens 0 0xff 0 = Inr (bestPriority, bestPosition) \<and>
    j < length tokens \<and> tokens ! j = OperatorToken opj"
  then have hj: "j < length tokens" and hop: "tokens ! j = OperatorToken opj"
    and hs: "findLowestPriority tokens 0 0xff 0 = Inr (bestPriority, bestPosition)"
    by simp_all
  have inv: "scanInv tokens (length tokens) bestPriority bestPosition"
    using findLowestPriority_inv[OF hs _ scanInv_start] by simp
  have pos: "bestPosition \<noteq> 0"
  proof
    assume "bestPosition = 0"
    then have "\<forall>j<length tokens. getType (tokens ! j) \<noteq> Type_OPERATOR"
      using inv unfolding scanInv_def by simp
    then have "getType (tokens ! j) \<noteq> Type_OPERATOR" using hj by blast
    then show False using hop by simp
  qed
  then show "0 < bestPosition" by simp
  show "bestPosition < length tokens"
    using inv pos unfolding scanInv_def by simp
  show "\<exists>op. tokens ! bestPosition = OperatorToken op \<and>
            operatorPriorityLookup ! operatorIndex op = bestPriority"
    using inv pos unfolding scanInv_def by simp
  have both: "bestPriority \<le> operatorPriorityLookup ! operatorIndex opj \<and>
      (operatorPriorityLookup ! operatorIndex opj = bestPriority \<longrightarrow>
         (if operatorAssociativityLookup ! unat bestPriority
          then j \<le> bestPosition else bestPosition \<le> j))"
    using inv pos hj hop unfolding scanInv_def by simp
  from both show "bestPriority \<le> operatorPriorityLookup ! operatorIndex opj" ..
  assume "operatorPriorityLookup ! operatorIndex opj = bestPriority"
  with both show "if operatorAssociativityLookup ! unat bestPriority
          then j \<le> bestPosition else bestPosition \<le> j" by simp
next
  show r: "processBinaryOperations
         [VariableToken None a, OperatorToken ASSIGN, VariableToken None b,
          OperatorToken ASSIGN, VariableToken None c]
       = Inr [BinaryOperationToken None ASSIGN (VariableToken None a)
               (BinaryOperationToken None ASSIGN (VariableToken None b) (VariableToken None c))]"
    by (simp add: processBinaryOperations.simps findLowestPriority.simps foldBinaryAt_def foldedToken_def
        at_def erase_def asOperator_def size_minus_1_def operatorPriorityLookup_def
        operatorAssociativityLookup_def)
  show "processBinaryOperations
         [VariableToken None a, OperatorToken ASSIGN, VariableToken None b,
          OperatorToken ASSIGN, VariableToken None c]
       \<noteq> Inr [BinaryOperationToken None ASSIGN
               (BinaryOperationToken None ASSIGN (VariableToken None a) (VariableToken None b))
               (VariableToken None c)]"
    by (simp add: r)
next
  show "processBinaryOperations
         [VariableToken None a, OperatorToken BINARY_MINUS, VariableToken None b,
          OperatorToken BINARY_MINUS, VariableToken None c]
       = Inr [BinaryOperationToken None BINARY_MINUS
               (BinaryOperationToken None BINARY_MINUS (VariableToken None a) (VariableToken None b))
               (VariableToken None c)]"
    by (simp add: processBinaryOperations.simps findLowestPriority.simps foldBinaryAt_def foldedToken_def
        at_def erase_def asOperator_def size_minus_1_def operatorPriorityLookup_def
        operatorAssociativityLookup_def)
qed

theorem processBinaryOperations_selects_lowest_priority_witness:
  "findLowestPriority a_assign_b_assign_c 0 0xff 0 = Inr (15, 3)
   \<and> (1::nat) < length a_assign_b_assign_c
   \<and> a_assign_b_assign_c ! 1 = OperatorToken ASSIGN
   \<and> a_assign_b_assign_c ! 3 = OperatorToken ASSIGN
   \<and> operatorPriorityLookup ! operatorIndex ASSIGN = 15
   \<and> operatorAssociativityLookup ! unat (15 :: 8 word)
   \<and> (1::nat) \<le> 3
   \<and> processBinaryOperations a_assign_b_assign_c
       = Inr [BinaryOperationToken None ASSIGN (VariableToken None var_a)
               (BinaryOperationToken None ASSIGN (VariableToken None var_b) (VariableToken None var_c))]"
  using processBinaryOperations_selects_lowest_priority
          [of a_assign_b_assign_c 15 3 1 ASSIGN var_a var_b var_c]
  by (simp add: a_assign_b_assign_c_def findLowestPriority.simps at_def asOperator_def
      size_minus_1_def operatorPriorityLookup_def operatorAssociativityLookup_def)

subsection \<open>Constant folding\<close>

text \<open>
  C4. Folding the modulo of two constants is not exact for every pair: with the constant 0
  as right operand \<^verbatim>\<open>tryReplaceConstants\<close> evaluates \<^verbatim>\<open>constLeft.mValue % constRight.mValue\<close>
  with a zero divisor, which has no value, while the division next to it returns 0 for
  the zero divisor.
\<close>

theorem tryReplaceConstants_modulo_by_zero:
  "tryReplaceConstants constLeft 0 BINARY_MODULO = Inl UndefinedBehaviour
   \<and> processBinaryOperations
         [ConstantToken None 5, OperatorToken BINARY_MODULO, ConstantToken None 0]
       = Inl UndefinedBehaviour
   \<and> tryReplaceConstants constLeft 0 BINARY_DIVIDE = Inr (Some 0)
   \<and> processBinaryOperations
         [ConstantToken None 5, OperatorToken BINARY_DIVIDE, ConstantToken None 0]
       = Inr [ConstantToken None 0]"
  by (simp add: tryReplaceConstants_def int64_mod_def processBinaryOperations.simps
      findLowestPriority.simps foldBinaryAt_def foldedToken_def at_def erase_def asOperator_def
      size_minus_1_def operatorPriorityLookup_def operatorAssociativityLookup_def)

subsection \<open>Operators that are not allowed\<close>














lemma processBinaryOperations_done:
  "findLowestPriority tokens 0 0xff 0 = Inr (bp, 0) \<Longrightarrow> processBinaryOperations tokens = Inr tokens"
  by (subst processBinaryOperations.simps) simp













subsection \<open>Memory accesses\<close>

lemma getType_VARTYPE: "getType t = Type_VARTYPE \<longleftrightarrow> (\<exists>dt. t = VarTypeToken dt)"
  by (cases t) auto

lemma processMemoryAccesses_loop_pair:
  assumes "i + 1 < length tokens" and "tokens ! i = VarTypeToken dataType"
    and "tokens ! (i + 1) = ParenthesisToken d BRACKET content"
  shows "processMemoryAccesses_loop tokens i =
     (if length content \<noteq> 1 then Inl (CompileError ''Expected exactly one token inside brackets'')
      else if \<not> isStatement (content ! 0)
      then Inl (CompileError ''Expected statement token inside brackets'')
      else processMemoryAccesses_loop
             (erase (tokens[i := MemoryAccessToken (Some dataType) (content ! 0)]) (i + 1)) (i + 1))"
proof -
  have b: "i < size_minus_1 tokens" using assms(1) by (auto simp: size_minus_1_def)
  have a: "at tokens i = Inr (VarTypeToken dataType)"
    "at tokens (Suc i) = Inr (ParenthesisToken d BRACKET content)"
    using assms by (simp_all add: at_def)
  have c: "length content = 1 \<Longrightarrow> at content 0 = Inr (content ! 0)"
    by (simp add: at_def)
  show ?thesis
    by (subst processMemoryAccesses_loop.simps) (simp add: a b c)
qed

lemma processMemoryAccesses_loop_other:
  assumes "i + 1 < length tokens" and "\<not> isBracketPairAt tokens i"
  shows "processMemoryAccesses_loop tokens i = processMemoryAccesses_loop tokens (i + 1)"
proof -
  have b: "i < size_minus_1 tokens" using assms(1) by (auto simp: size_minus_1_def)
  have a: "at tokens i = Inr (tokens ! i)" "at tokens (Suc i) = Inr (tokens ! (Suc i))"
    using assms by (simp_all add: at_def)
  show ?thesis
    apply (subst processMemoryAccesses_loop.simps)
    using assms(2) assms(1)
    by (auto simp: a b isBracketPairAt_def split: Token.splits ParenthesisType.splits)
qed

lemma isBracketPairAtE:
  assumes "isBracketPairAt tokens i"
  obtains dataType d content where "tokens ! i = VarTypeToken dataType"
    "tokens ! (i + 1) = ParenthesisToken d BRACKET content"
  using assms
  by (auto simp: isBracketPairAt_def getType_VARTYPE split: Token.splits ParenthesisType.splits)

lemma nth_erase_after:
  "Suc i < j \<Longrightarrow> j < length xs \<Longrightarrow> erase (xs[i := t]) (Suc i) ! (j - 1) = xs ! j"
  by (cases j) (auto simp: erase_def nth_append min_def)

lemma badBracketAt_after_collapse:
  assumes bad: "badBracketAt tokens k" and ik: "i < k"
    and pair: "tokens ! (i + 1) = ParenthesisToken d BRACKET content"
  shows "badBracketAt (erase (tokens[i := t]) (i + 1)) (k - 1) \<and> i + 1 \<le> k - 1"
proof -
  have k: "k + 1 < length tokens" "getType (tokens ! k) = Type_VARTYPE"
    using bad by (auto simp: badBracketAt_def)
  have "k \<noteq> i + 1" using k(2) pair by auto
  then have lt: "Suc i < k" using ik by simp
  let ?ts = "erase (tokens[i := t]) (i + 1)"
  have a: "?ts ! (k - 1) = tokens ! k" using nth_erase_after[of i k tokens t] lt k by simp
  have b: "?ts ! (k - 1 + 1) = tokens ! (k + 1)" using nth_erase_after[of i "k + 1" tokens t] lt k by simp
  have len: "length ?ts = length tokens - 1" using lt k by (simp add: erase_def)
  show ?thesis
    using bad a b len lt k unfolding badBracketAt_def by auto
qed

lemma processMemoryAccesses_loop_bad:
  assumes "badBracketAt tokens k" and "i \<le> k"
  shows "processMemoryAccesses_loop tokens i = Inl (CompileError ''Expected exactly one token inside brackets'')
       \<or> processMemoryAccesses_loop tokens i = Inl (CompileError ''Expected statement token inside brackets'')"
  using assms
proof (induction "k - i" arbitrary: tokens k i rule: less_induct)
  case less
  have k: "k + 1 < length tokens" using less.prems(1) by (simp add: badBracketAt_def)
  then have i: "i + 1 < length tokens" using less.prems(2) by simp
  show ?case
  proof (cases "isBracketPairAt tokens i")
    case False
    then have ne: "i \<noteq> k" using less.prems(1)
      by (auto simp: isBracketPairAt_def badBracketAt_def split: Token.splits ParenthesisType.splits)
    then have "i + 1 \<le> k" "k - (i + 1) < k - i" using less.prems(2) by simp_all
    then show ?thesis
      using less.hyps[OF _ less.prems(1), of "i + 1"] processMemoryAccesses_loop_other[OF i False]
      by simp
  next
    case True
    then obtain dataType d content where p: "tokens ! i = VarTypeToken dataType"
      "tokens ! (i + 1) = ParenthesisToken d BRACKET content"
      by (rule isBracketPairAtE)
    note step = processMemoryAccesses_loop_pair[OF i p]
    show ?thesis
    proof (cases "length content = 1 \<and> isStatement (content ! 0)")
      case False
      then show ?thesis using step by auto
    next
      case good: True
      have ne: "i \<noteq> k" using less.prems(1) p good by (auto simp: badBracketAt_def)
      then have ik: "i < k" using less.prems(2) by simp
      let ?ts = "erase (tokens[i := MemoryAccessToken (Some dataType) (content ! 0)]) (i + 1)"
      have b: "badBracketAt ?ts (k - 1)" "i + 1 \<le> k - 1"
        using badBracketAt_after_collapse[OF less.prems(1) ik p(2)] by simp_all
      have "k - 1 - (i + 1) < k - i" using ik by simp
      then show ?thesis
        using less.hyps[OF _ b] step good by simp
    qed
  qed
qed

lemma processMemoryAccesses_single_pair:
  assumes "isStatement address"
  shows "processMemoryAccesses [VarTypeToken dataType, ParenthesisToken d BRACKET [address]]
         = Inr [MemoryAccessToken (Some dataType) address]"
  using assms
  by (simp add: processMemoryAccesses_def processMemoryAccesses_loop.simps size_minus_1_def at_def erase_def)

lemma memoryAccessOf_Some:
  assumes "memoryAccessOf token next = Some m"
  obtains dataType d address where "token = VarTypeToken dataType"
    "next = ParenthesisToken d BRACKET [address]" "isStatement address"
    "m = MemoryAccessToken (Some dataType) address"
  using assms
  by (auto simp: memoryAccessOf_def split: Token.splits ParenthesisType.splits list.splits if_splits)

lemma memoryAccessOf_None_pair:
  assumes "memoryAccessOf (tokens ! i) (tokens ! Suc i) = None" and "isBracketPairAt tokens i"
  shows "badBracketAt tokens i"
proof -
  from assms(2) obtain dataType d content where p: "tokens ! i = VarTypeToken dataType"
    "tokens ! (i + 1) = ParenthesisToken d BRACKET content"
    by (rule isBracketPairAtE)
  have "\<not> (length content = 1 \<and> isStatement (content ! 0))"
  proof
    assume g: "length content = 1 \<and> isStatement (content ! 0)"
    then obtain a where "content = [a]" by (cases content) auto
    then show False using assms(1) p g by (simp add: memoryAccessOf_def)
  qed
  then show ?thesis using assms(2) p by (simp add: badBracketAt_def isBracketPairAt_def)
qed

lemma drop_two: "Suc i < length xs \<Longrightarrow> drop i xs = xs ! i # xs ! Suc i # drop (Suc (Suc i)) xs"
  by (simp add: Cons_nth_drop_Suc Suc_lessD)

lemma erase_collapse:
  assumes "Suc i < length xs"
  shows "erase (xs[i := m]) (Suc i) = take i xs @ m # drop (Suc (Suc i)) xs"
proof -
  have "xs[i := m] = take i xs @ m # drop (Suc i) xs"
    using assms by (simp add: upd_conv_take_nth_drop)
  then show ?thesis using assms
    by (simp add: erase_def take_Suc_conv_app_nth)
qed

lemma badBracketAt_shift:
  assumes "Suc i < length xs" and "i < j"
    and "badBracketAt (take i xs @ m # drop (Suc (Suc i)) xs) j"
  shows "badBracketAt xs (Suc j)"
proof -
  let ?ys = "take i xs @ m # drop (Suc (Suc i)) xs"
  have len: "length ?ys = length xs - 1" using assms(1) by simp
  have n: "\<And>q. i < q \<Longrightarrow> q < length ?ys \<Longrightarrow> ?ys ! q = xs ! Suc q"
  proof -
    fix q assume q: "i < q" "q < length ?ys"
    have li: "length (take i xs) = i" using assms(1) by simp
    define r where "r = q - Suc i"
    have qr: "q = Suc (i + r)" using q by (simp add: r_def)
    have "?ys ! q = (m # drop (Suc (Suc i)) xs) ! (q - i)"
      using q unfolding nth_append li by simp
    also have "q - i = Suc r" using qr by simp
    also have "(m # drop (Suc (Suc i)) xs) ! Suc r = drop (Suc (Suc i)) xs ! r" by simp
    also have "\<dots> = xs ! (Suc (Suc i) + r)" using q assms(1) len qr by simp
    also have "Suc (Suc i) + r = Suc q" using qr by simp
    finally show "?ys ! q = xs ! Suc q" .
  qed
  have j: "j + 1 < length ?ys" using assms(3) by (simp add: badBracketAt_def)
  have "?ys ! j = xs ! Suc j" "?ys ! (j + 1) = xs ! Suc (j + 1)"
    using n[of j] n[of "j + 1"] assms(2) j by simp_all
  then show ?thesis
    using assms(3) j len unfolding badBracketAt_def by auto
qed

lemma processMemoryAccesses_loop_collapses:
  assumes "tokens \<noteq> []" and "\<forall>k\<ge>i. \<not> badBracketAt tokens k" and "i \<le> length tokens"
  shows "processMemoryAccesses_loop tokens i
         = Inr (take i tokens @ spec_collapseMemoryAccesses (drop i tokens))"
  using assms
proof (induction "length tokens - i" arbitrary: tokens i rule: less_induct)
  case less
  show ?case
  proof (cases "i + 1 < length tokens")
    case False
    then have "\<not> i < size_minus_1 tokens" using less.prems(1) by (simp add: size_minus_1_def)
    then have "processMemoryAccesses_loop tokens i = Inr tokens"
      by (subst processMemoryAccesses_loop.simps) simp
    moreover have "spec_collapseMemoryAccesses (drop i tokens) = drop i tokens"
    proof (cases "drop i tokens")
      case Nil
      then show ?thesis by simp
    next
      case (Cons a list)
      then have "list = []" using False less.prems(3)
        by (metis Suc_eq_plus1 length_Cons length_drop less_diff_conv list.size(3) add.commute
            add_diff_cancel_left' length_0_conv not_less_eq zero_less_Suc le_add_diff_inverse
            less_Suc_eq_0_disj)
      then show ?thesis using Cons by simp
    qed
    ultimately show ?thesis by simp
  next
    case True
    then have d: "drop i tokens = tokens ! i # tokens ! Suc i # drop (Suc (Suc i)) tokens"
      using drop_two by simp
    show ?thesis
    proof (cases "memoryAccessOf (tokens ! i) (tokens ! Suc i)")
      case None
      have np: "\<not> isBracketPairAt tokens i"
        using memoryAccessOf_None_pair[OF None] less.prems(2) by auto
      have step: "processMemoryAccesses_loop tokens i = processMemoryAccesses_loop tokens (i + 1)"
        using processMemoryAccesses_loop_other[OF True np] .
      have m1: "length tokens - (i + 1) < length tokens - i" using True by simp
      have nb: "\<forall>k\<ge>i + 1. \<not> badBracketAt tokens k" using less.prems(2) by simp
      have le: "i + 1 \<le> length tokens" using True by simp
      have "processMemoryAccesses_loop tokens (i + 1)
            = Inr (take (i + 1) tokens @ spec_collapseMemoryAccesses (drop (i + 1) tokens))"
        by (rule less.hyps[OF m1 less.prems(1) nb le])
      moreover have "take (i + 1) tokens = take i tokens @ [tokens ! i]"
        using True by (simp add: take_Suc_conv_app_nth)
      moreover have "drop (i + 1) tokens = tokens ! Suc i # drop (Suc (Suc i)) tokens"
        using True by (simp add: Cons_nth_drop_Suc)
      ultimately show ?thesis using step d None by simp
    next
      case (Some m)
      then obtain dataType dd address where p: "tokens ! i = VarTypeToken dataType"
        "tokens ! Suc i = ParenthesisToken dd BRACKET [address]" "isStatement address"
        "m = MemoryAccessToken (Some dataType) address"
        by (rule memoryAccessOf_Some)
      let ?ts = "erase (tokens[i := m]) (i + 1)"
      have ts: "?ts = take i tokens @ m # drop (Suc (Suc i)) tokens"
        using erase_collapse[of i tokens m] True by simp
      have step: "processMemoryAccesses_loop tokens i = processMemoryAccesses_loop ?ts (i + 1)"
        using processMemoryAccesses_loop_pair[OF True p(1), of dd "[address]"] p by simp
      have nobad: "\<forall>k\<ge>i + 1. \<not> badBracketAt ?ts k"
      proof (intro allI impI notI)
        fix k assume "i + 1 \<le> k" and "badBracketAt ?ts k"
        then have "badBracketAt tokens (Suc k)"
          using badBracketAt_shift[of i tokens k m] True ts by simp
        then show False using less.prems(2) \<open>i + 1 \<le> k\<close> by auto
      qed
      have len: "length ?ts = length tokens - 1" using ts True by simp
      have m1: "length ?ts - (i + 1) < length tokens - i" using len True by simp
      have ne: "?ts \<noteq> []" using len True by (metis Suc_eq_plus1 length_0_conv less_diff_conv not_less0)
      have le: "i + 1 \<le> length ?ts" using len True by simp
      have "processMemoryAccesses_loop ?ts (i + 1)
            = Inr (take (i + 1) ?ts @ spec_collapseMemoryAccesses (drop (i + 1) ?ts))"
        by (rule less.hyps[OF m1 ne nobad le])
      moreover have "take (i + 1) ?ts = take i tokens @ [m]"
        using True unfolding ts by simp
      moreover have "drop (i + 1) ?ts = drop (Suc (Suc i)) tokens"
        using True unfolding ts by simp
      ultimately show ?thesis using step d Some by simp
    qed
  qed
qed

lemmas recognition_eval_defs =
  processMemoryAccesses_def processMemoryAccesses_loop.simps
  processExplicitCasts_def processExplicitCasts_loop.simps
  processFunctionCalls_def processFunctionCalls_loop.simps
  size_minus_1_def at_def erase_def

lemmas comma_eval_defs =
  processCommaSeparators_def processCommaSeparators_loop.simps splitAtCommas_def
  isCommaSeparator_def at_def erase_def Let_def

text \<open>
  C8. When a type name is followed by a bracket group whose content is not exactly one
  statement token (no token, several tokens, or the single comma-separated-list token
  that the comma splitting leaves for \<open>a, b\<close>), \<^verbatim>\<open>processMemoryAccesses\<close> fails with one of its
  two fatal errors. Otherwise, in a unit of any length that is not empty, every type name
  followed by a bracket group collapses into the memory access token with that type and
  the single statement of the bracket group as address, and the other tokens stay: the
  result is that of \<open>spec_collapseMemoryAccesses\<close>.
\<close>

theorem processMemoryAccesses_bracket_content:
  "(badBracketAt tokens k \<longrightarrow>
      processMemoryAccesses tokens
        = Inl (CompileError ''Expected exactly one token inside brackets'')
      \<or> processMemoryAccesses tokens
        = Inl (CompileError ''Expected statement token inside brackets''))
   \<and> (isStatement address \<longrightarrow>
        processMemoryAccesses [VarTypeToken dataType, ParenthesisToken d BRACKET [address]]
          = Inr [MemoryAccessToken (Some dataType) address])
   \<and> \<not> isStatement (CommaSeparatedListToken items)
   \<and> splitAtCommas [VariableToken None a, OperatorToken COMMA_SEPARATOR, VariableToken None b]
       = Inr ([CommaSeparatedListToken [[VariableToken None a], [VariableToken None b]]],
              [[VariableToken None a], [VariableToken None b]])
   \<and> processMemoryAccesses
         [VarTypeToken INT_32,
          ParenthesisToken None BRACKET
            [CommaSeparatedListToken [[VariableToken None a], [VariableToken None b]]]]
       = Inl (CompileError ''Expected statement token inside brackets'')
   \<and> (units \<noteq> [] \<and> (\<forall>j. \<not> badBracketAt units j) \<longrightarrow>
        processMemoryAccesses units = Inr (spec_collapseMemoryAccesses units))
   \<and> processMemoryAccesses
         [VariableToken None a, OperatorToken ASSIGN, VarTypeToken INT_32,
          ParenthesisToken None BRACKET [VariableToken None b]]
       = Inr [VariableToken None a, OperatorToken ASSIGN,
              MemoryAccessToken (Some INT_32) (VariableToken None b)]"
proof (intro conjI impI)
  assume "badBracketAt tokens k"
  then show "processMemoryAccesses tokens
        = Inl (CompileError ''Expected exactly one token inside brackets'')
      \<or> processMemoryAccesses tokens
        = Inl (CompileError ''Expected statement token inside brackets'')"
    unfolding processMemoryAccesses_def
    by (rule processMemoryAccesses_loop_bad) simp
next
  assume "isStatement address"
  then show "processMemoryAccesses [VarTypeToken dataType, ParenthesisToken d BRACKET [address]]
          = Inr [MemoryAccessToken (Some dataType) address]"
    by (rule processMemoryAccesses_single_pair)
next
  show "\<not> isStatement (CommaSeparatedListToken items)" by simp
next
  have "[0..<3] = [0, 1, 2]" by (simp add: upt_rec)
  then show "splitAtCommas [VariableToken None a, OperatorToken COMMA_SEPARATOR, VariableToken None b]
       = Inr ([CommaSeparatedListToken [[VariableToken None a], [VariableToken None b]]],
              [[VariableToken None a], [VariableToken None b]])"
    by (simp add: comma_eval_defs numeral_2_eq_2)
next
  show "processMemoryAccesses
         [VarTypeToken INT_32,
          ParenthesisToken None BRACKET
            [CommaSeparatedListToken [[VariableToken None a], [VariableToken None b]]]]
       = Inl (CompileError ''Expected statement token inside brackets'')"
    by (simp add: recognition_eval_defs)
next
  assume h: "units \<noteq> [] \<and> (\<forall>j. \<not> badBracketAt units j)"
  then have "processMemoryAccesses_loop units 0
      = Inr (take 0 units @ spec_collapseMemoryAccesses (drop 0 units))"
    by (intro processMemoryAccesses_loop_collapses) simp_all
  then show "processMemoryAccesses units = Inr (spec_collapseMemoryAccesses units)"
    by (simp add: processMemoryAccesses_def)
next
  show "processMemoryAccesses
         [VariableToken None a, OperatorToken ASSIGN, VarTypeToken INT_32,
          ParenthesisToken None BRACKET [VariableToken None b]]
       = Inr [VariableToken None a, OperatorToken ASSIGN,
              MemoryAccessToken (Some INT_32) (VariableToken None b)]"
    by (simp add: recognition_eval_defs)
qed

theorem processMemoryAccesses_bracket_content_witness:
  "badBracketAt empty_bracket 0
   \<and> processMemoryAccesses empty_bracket
       = Inl (CompileError ''Expected exactly one token inside brackets'')
   \<and> isStatement (VariableToken None var_a)
   \<and> processMemoryAccesses
         [VarTypeToken INT_32, ParenthesisToken None BRACKET [VariableToken None var_a]]
       = Inr [MemoryAccessToken (Some INT_32) (VariableToken None var_a)]
   \<and> a_assign_access \<noteq> []
   \<and> (\<forall>j. \<not> badBracketAt a_assign_access j)
   \<and> spec_collapseMemoryAccesses a_assign_access
       = [VariableToken None var_a, OperatorToken ASSIGN,
          MemoryAccessToken (Some INT_32) (VariableToken None var_b)]
   \<and> processMemoryAccesses a_assign_access
       = Inr [VariableToken None var_a, OperatorToken ASSIGN,
              MemoryAccessToken (Some INT_32) (VariableToken None var_b)]"
proof -
  have nb: "\<forall>j. \<not> badBracketAt a_assign_access j"
  proof
    fix j :: nat
    have "j = 0 \<or> j = 1 \<or> j = 2 \<or> 3 \<le> j" by arith
    then show "\<not> badBracketAt a_assign_access j"
      by (elim disjE) (simp_all add: badBracketAt_def a_assign_access_def)
  qed
  have ne: "a_assign_access \<noteq> []" by (simp add: a_assign_access_def)
  have sp: "spec_collapseMemoryAccesses a_assign_access
       = [VariableToken None var_a, OperatorToken ASSIGN,
          MemoryAccessToken (Some INT_32) (VariableToken None var_b)]"
    by (simp add: a_assign_access_def memoryAccessOf_def)
  show ?thesis
    using processMemoryAccesses_bracket_content
            [where tokens = empty_bracket and k = 0 and address = "VariableToken None var_a"
               and dataType = INT_32 and d = None and units = a_assign_access]
          nb ne sp
    by (simp add: empty_bracket_def badBracketAt_def recognition_eval_defs)
qed

subsection \<open>Empty token lists\<close>

lemma processFunctionCalls_loop_no_OutOfBounds:
  "tokens \<noteq> [] \<Longrightarrow> processFunctionCalls_loop ctx tokens i \<noteq> Inl OutOfBounds"
proof (induction ctx tokens i rule: processFunctionCalls_loop.induct)
  case (1 ctx tokens i)
  show ?case
  proof (cases "i < size_minus_1 tokens")
    case False
    then show ?thesis by (subst processFunctionCalls_loop.simps) simp
  next
    case True
    then have i: "i + 1 < length tokens" using "1.prems" by (simp add: size_minus_1_def)
    then have a: "at tokens i = Inr (tokens ! i)" "at tokens (Suc i) = Inr (tokens ! (Suc i))"
      by (simp_all add: at_def)
    have ne: "\<And>t. erase (tokens[i := t]) (Suc i) \<noteq> []" using i by (auto simp: erase_def)
    show ?thesis
      apply (subst processFunctionCalls_loop.simps)
      using True a ne "1.IH" "1.prems"
      by (auto split: Token.splits ParenthesisType.splits)
  qed
qed

lemma processMemoryAccesses_loop_no_OutOfBounds:
  "tokens \<noteq> [] \<Longrightarrow> processMemoryAccesses_loop tokens i \<noteq> Inl OutOfBounds"
proof (induction tokens i rule: processMemoryAccesses_loop.induct)
  case (1 tokens i)
  show ?case
  proof (cases "i < size_minus_1 tokens")
    case False
    then show ?thesis by (subst processMemoryAccesses_loop.simps) simp
  next
    case True
    then have i: "i + 1 < length tokens" using "1.prems" by (simp add: size_minus_1_def)
    then have a: "at tokens i = Inr (tokens ! i)" "at tokens (i + 1) = Inr (tokens ! (i + 1))"
      by (simp_all add: at_def)
    have ne: "\<And>t. erase (tokens[i := t]) (i + 1) \<noteq> []" using i by (auto simp: erase_def)
    show ?thesis
      apply (subst processMemoryAccesses_loop.simps)
      using True a ne "1.IH" "1.prems"
      by (auto simp: at_def split: Token.splits ParenthesisType.splits)
  qed
qed

lemma processExplicitCasts_loop_no_OutOfBounds:
  "tokens \<noteq> [] \<Longrightarrow> processExplicitCasts_loop tokens i \<noteq> Inl OutOfBounds"
proof (induction tokens i rule: processExplicitCasts_loop.induct)
  case (1 tokens i)
  show ?case
  proof (cases "i < size_minus_1 tokens")
    case False
    then show ?thesis by (subst processExplicitCasts_loop.simps) simp
  next
    case True
    then have i: "i + 1 < length tokens" using "1.prems" by (simp add: size_minus_1_def)
    then have a: "at tokens i = Inr (tokens ! i)" "at tokens (Suc i) = Inr (tokens ! (Suc i))"
      by (simp_all add: at_def)
    have ne: "\<And>t. erase (tokens[i := t]) (Suc i) \<noteq> []" using i by (auto simp: erase_def)
    show ?thesis
      apply (subst processExplicitCasts_loop.simps)
      using True a ne "1.IH" "1.prems"
      by (auto split: Token.splits ParenthesisType.splits)
  qed
qed

text \<open>
  C10. The three recognition passes need a token list that is not empty. On the empty
  list the bound \<^verbatim>\<open>tokens.size()-1\<close> wraps around to \<open>2 ^ 64 - 1\<close> and the first round reads
  \<^verbatim>\<open>tokens[0]\<close> outside the list; on a list that is not empty no pass reads outside the
  list. The comma splitting puts an empty list into the worklist for an empty item, such
  as the middle item of \<open>a, , b\<close>.
\<close>

theorem recognition_passes_need_tokens:
  "processFunctionCalls ctx [] = Inl OutOfBounds
   \<and> processMemoryAccesses [] = Inl OutOfBounds
   \<and> processExplicitCasts [] = Inl OutOfBounds
   \<and> size_minus_1 ([] :: Token list) = 2 ^ 64 - 1
   \<and> (tokens \<noteq> [] \<longrightarrow>
        processFunctionCalls ctx tokens \<noteq> Inl OutOfBounds
        \<and> processMemoryAccesses tokens \<noteq> Inl OutOfBounds
        \<and> processExplicitCasts tokens \<noteq> Inl OutOfBounds)
   \<and> processCommaSeparators
         [[VariableToken None a, OperatorToken COMMA_SEPARATOR,
           OperatorToken COMMA_SEPARATOR, VariableToken None b]]
       = Inr [[CommaSeparatedListToken [[VariableToken None a], [], [VariableToken None b]]],
              [VariableToken None a], [], [VariableToken None b]]"
proof (intro conjI impI)
  show "processFunctionCalls ctx [] = Inl OutOfBounds"
    by (simp add: recognition_eval_defs)
  show "processMemoryAccesses [] = Inl OutOfBounds"
    by (simp add: recognition_eval_defs)
  show "processExplicitCasts [] = Inl OutOfBounds"
    by (simp add: recognition_eval_defs)
  show "size_minus_1 ([] :: Token list) = 2 ^ 64 - 1"
    by (simp add: size_minus_1_def)
next
  assume ne: "tokens \<noteq> []"
  show "processFunctionCalls ctx tokens \<noteq> Inl OutOfBounds"
    unfolding processFunctionCalls_def
    by (rule processFunctionCalls_loop_no_OutOfBounds[OF ne])
  show "processMemoryAccesses tokens \<noteq> Inl OutOfBounds"
    unfolding processMemoryAccesses_def
    by (rule processMemoryAccesses_loop_no_OutOfBounds[OF ne])
  show "processExplicitCasts tokens \<noteq> Inl OutOfBounds"
    unfolding processExplicitCasts_def
    by (rule processExplicitCasts_loop_no_OutOfBounds[OF ne])
next
  have "[0..<4] = [0, 1, 2, 3]" by (simp add: upt_rec)
  then show "processCommaSeparators
         [[VariableToken None a, OperatorToken COMMA_SEPARATOR,
           OperatorToken COMMA_SEPARATOR, VariableToken None b]]
       = Inr [[CommaSeparatedListToken [[VariableToken None a], [], [VariableToken None b]]],
              [VariableToken None a], [], [VariableToken None b]]"
    by (simp add: comma_eval_defs numeral_2_eq_2 numeral_3_eq_3)
qed

theorem recognition_passes_need_tokens_witness:
  "[VariableToken None var_a] \<noteq> []
   \<and> processFunctionCalls ctx0 [VariableToken None var_a] = Inr [VariableToken None var_a]
   \<and> processMemoryAccesses [VariableToken None var_a] = Inr [VariableToken None var_a]
   \<and> processExplicitCasts [VariableToken None var_a] = Inr [VariableToken None var_a]
   \<and> processFunctionCalls ctx0 [] = Inl OutOfBounds"
  using recognition_passes_need_tokens[of ctx0 "[VariableToken None var_a]"]
  by (simp add: recognition_eval_defs)

subsection \<open>Unary operations\<close>



lemma at_int_minus1: "0 < k \<Longrightarrow> at_int xs (int k - 1) = at xs (k - 1)"
  by (auto simp: at_int_def at_def nat_diff_distrib)

















subsection \<open>Type assignment of a memory access\<close>

lemma assignStatementDataType_MemoryAccessToken:
  "assignStatementDataType ctx (MemoryAccessToken dataType address) resultType =
     (case assignStatementDataType ctx address (Some UINT_32) of
        Inl e \<Rightarrow> Inl e
      | Inr address' \<Rightarrow> Inr (MemoryAccessToken dataType address'))"
  by (subst assignStatementDataType.simps) simp

lemmas assign_eval_defs =
  assignStatementDataType.simps parameterTokensOf_def storeParameterTokens_def
  resolveFunction_def getPriorityOfSignature_def signatureKey_def packPriorities.simps
  startsWith_def getImplicitCastPriority_def sizeDelta_def CANNOT_CAST_def getBaseType_def
  predefined_defs

text \<open>
  Claim C9, as the code has it. Type assignment of a memory access is type assignment of
  its address with the 32-bit unsigned type as the expected type, and it fails exactly
  when that fails, with the same error; the result type asked of the memory access plays
  no part. When it succeeds the memory access has the data type it had before. The
  expected type is only a hint: a constant address takes it, while a variable address
  keeps the type of its variable, whatever that is, and no error follows.
\<close>

theorem memory_access_address_type:
  "assignStatementDataType ctx (MemoryAccessToken dataType address) resultType =
     (case assignStatementDataType ctx address (Some UINT_32) of
        Inl e \<Rightarrow> Inl e
      | Inr address' \<Rightarrow> Inr (MemoryAccessToken dataType address'))
   \<and> (\<forall>token'. assignStatementDataType ctx (MemoryAccessToken dataType address) resultType = Inr token'
        \<longrightarrow> mDataType token' = dataType)
   \<and> assignStatementDataType ctx (MemoryAccessToken dataType (ConstantToken d v)) resultType
       = Inr (MemoryAccessToken dataType (ConstantToken (Some UINT_32) v))
   \<and> assignStatementDataType ctx (MemoryAccessToken dataType (VariableToken d variable)) resultType
       = Inr (MemoryAccessToken dataType (VariableToken (Some (vDataType variable)) variable))"
proof (intro conjI allI impI)
  show "assignStatementDataType ctx (MemoryAccessToken dataType address) resultType =
     (case assignStatementDataType ctx address (Some UINT_32) of
        Inl e \<Rightarrow> Inl e
      | Inr address' \<Rightarrow> Inr (MemoryAccessToken dataType address'))"
    by (rule assignStatementDataType_MemoryAccessToken)
next
  fix token'
  assume "assignStatementDataType ctx (MemoryAccessToken dataType address) resultType = Inr token'"
  then show "mDataType token' = dataType"
    unfolding assignStatementDataType_MemoryAccessToken
    by (cases "assignStatementDataType ctx address (Some UINT_32)") auto
next
  show "assignStatementDataType ctx (MemoryAccessToken dataType (ConstantToken d v)) resultType
       = Inr (MemoryAccessToken dataType (ConstantToken (Some UINT_32) v))"
    unfolding assignStatementDataType_MemoryAccessToken
    by (subst assignStatementDataType.simps) simp
next
  show "assignStatementDataType ctx (MemoryAccessToken dataType (VariableToken d variable)) resultType
       = Inr (MemoryAccessToken dataType (VariableToken (Some (vDataType variable)) variable))"
    unfolding assignStatementDataType_MemoryAccessToken
    by (subst assignStatementDataType.simps) simp
qed

text \<open>
  The theorem at the memory access \<^verbatim>\<open>u8[w]\<close> with \<open>w\<close> a variable of type \<^verbatim>\<open>s8\<close>, assigned
  with the result type \<^verbatim>\<open>s64\<close>: the assignment succeeds, and the memory access keeps \<^verbatim>\<open>u8\<close>.
\<close>

theorem memory_access_address_type_witness:
  "assignStatementDataType ctx_f (MemoryAccessToken (Some UINT_8) (VariableToken None var_s8)) (Some INT_64)
     = Inr (MemoryAccessToken (Some UINT_8) (VariableToken (Some INT_8) var_s8))
   \<and> mDataType (MemoryAccessToken (Some UINT_8) (VariableToken (Some INT_8) var_s8)) = Some UINT_8"
proof -
  have e: "assignStatementDataType ctx_f (MemoryAccessToken (Some UINT_8) (VariableToken None var_s8)) (Some INT_64)
     = Inr (MemoryAccessToken (Some UINT_8) (VariableToken (Some INT_8) var_s8))"
    by (simp add: assignStatementDataType.simps var_s8_def)
  from memory_access_address_type[of ctx_f "Some UINT_8" "VariableToken None var_s8" "Some INT_64"] e
  show ?thesis by simp
qed

text \<open>
  Against claim C9 as stated: the address of the memory access \<^verbatim>\<open>u8[g()]\<close> is a call of
  the function \<open>g\<close>, which returns \<^verbatim>\<open>void\<close>. No implicit cast leads from \<^verbatim>\<open>void\<close> to the
  address type \<^verbatim>\<open>u32\<close>, yet type assignment succeeds and leaves the address with the
  type \<^verbatim>\<open>void\<close>.
\<close>

theorem void_address_counterexample:
  "assignStatementDataType ctx_f (MemoryAccessToken (Some UINT_8) call_g) None
     = Inr (MemoryAccessToken (Some UINT_8)
              (FunctionToken (Some VOID_DATATYPE) ''g'' (Some g_void) None PARENTHESIS [] False))
   \<and> getImplicitCastPriority VOID_DATATYPE UINT_32 = CANNOT_CAST"
  by (simp add: assign_eval_defs ctx_f_def call_g_def g_void_def)

end
